theory Spec2Isabelle
  imports Complex_Main "HOL-Library.Sublist"
begin

section \<open>Answer submission and topic recommendation of the quiz backend\<close>

text \<open>
  The development embeds two request handlers of the backend:
  \<^item> \<^verbatim>\<open>POST /api/progress/submit-answer\<close> of \<^verbatim>\<open>routes/progress.js\<close>, and
  \<^item> \<^verbatim>\<open>GET /api/recommendations\<close> of \<^verbatim>\<open>routes/recommendations.js\<close>,
  together with the parts of the Mongoose schemas (\<^verbatim>\<open>Progress\<close>, \<^verbatim>\<open>Attempt\<close>,
  \<^verbatim>\<open>User.stats\<close>) they read and write.

  Conventions of the embedding.
  \<^item> A JavaScript \<^verbatim>\<open>Number\<close> that holds a measurement (mastery, alpha, a score, a number of
    days) is a \<^typ>\<open>real\<close>: arithmetic is exact, rounding of IEEE doubles is not modelled.
    A \<^verbatim>\<open>Number\<close> that counts (attempts, corrects, streaks) is an \<^typ>\<open>int\<close>.
  \<^item> A \<^verbatim>\<open>Date\<close> is its number of milliseconds since the epoch, an \<^typ>\<open>int\<close>; a field that
    may be \<^verbatim>\<open>null\<close> or \<^verbatim>\<open>undefined\<close> is an \<^typ>\<open>'a option\<close>; \<^verbatim>\<open>NaN\<close> is \<^term>\<open>None\<close>.
  \<^item> Strings are lists of ASCII characters.
  \<^item> A field of a request body is a string, or absent or of another type; the stored
    documents and the question bank have the types of their schemas.
\<close>

subsection \<open>Strings: \<^verbatim>\<open>toUpperCase\<close>, \<^verbatim>\<open>split('_Q')\<close>, \<^verbatim>\<open>parseInt\<close>\<close>

definition char_upper :: "char \<Rightarrow> char" where
  "char_upper c =
     (let n = (of_char c :: nat) in if 97 \<le> n \<and> n \<le> 122 then char_of (n - 32) else c)"

definition toUpperCase :: "string \<Rightarrow> string" where
  "toUpperCase s = map char_upper s"

text \<open>
  \<^verbatim>\<open>s.split('_Q')\<close>: the pieces of \<open>s\<close> between the occurrences of the separator, scanned
  from the left; \<open>acc\<close> holds the current piece, reversed.
\<close>

fun split_Q_acc :: "string \<Rightarrow> string \<Rightarrow> string list" where
  "split_Q_acc acc [] = [rev acc]"
| "split_Q_acc acc [c] = [rev (c # acc)]"
| "split_Q_acc acc (c # d # cs) =
     (if c = CHR ''_'' \<and> d = CHR ''Q'' then rev acc # split_Q_acc [] cs
      else split_Q_acc (c # acc) (d # cs))"

definition split_Q :: "string \<Rightarrow> string list" where
  "split_Q s = split_Q_acc [] s"

text \<open>\<^verbatim>\<open>xs[i]\<close> on an array: \<^verbatim>\<open>undefined\<close> outside the array.\<close>

definition at_index :: "'a list \<Rightarrow> nat \<Rightarrow> 'a option" where
  "at_index xs i = (if i < length xs then Some (xs ! i) else None)"

definition isWhiteSpace :: "char \<Rightarrow> bool" where
  "isWhiteSpace c = (let n = (of_char c :: nat) in n = 32 \<or> (9 \<le> n \<and> n \<le> 13))"

definition digit_of :: "char \<Rightarrow> nat option" where
  "digit_of c =
     (let n = (of_char c :: nat) in
      if 48 \<le> n \<and> n \<le> 57 then Some (n - 48)
      else if 97 \<le> n \<and> n \<le> 102 then Some (n - 87)
      else if 65 \<le> n \<and> n \<le> 70 then Some (n - 55)
      else None)"

definition is_digit :: "nat \<Rightarrow> char \<Rightarrow> bool" where
  "is_digit R c = (case digit_of c of Some d \<Rightarrow> d < R | None \<Rightarrow> False)"

definition digit_val :: "char \<Rightarrow> nat" where
  "digit_val c = (case digit_of c of Some d \<Rightarrow> d | None \<Rightarrow> 0)"

text \<open>
  \<^verbatim>\<open>parseInt(s)\<close> with no radix: leading white space is skipped, one sign is read, a
  \<^verbatim>\<open>0x\<close> prefix selects radix 16, and the longest prefix of digits is the value; no digit
  gives \<^verbatim>\<open>NaN\<close>. The argument \<^verbatim>\<open>undefined\<close> is read as the string \<^verbatim>\<open>"undefined"\<close>, which
  has no digit.
\<close>

definition parseInt_string :: "string \<Rightarrow> int option" where
  "parseInt_string str =
     (let s = dropWhile isWhiteSpace str;
          neg = (case s of c # _ \<Rightarrow> c = CHR ''-'' | [] \<Rightarrow> False);
          s1 = (case s of c # cs \<Rightarrow> if c = CHR ''-'' \<or> c = CHR ''+'' then cs else s | [] \<Rightarrow> s);
          hex = (case s1 of a # b # _ \<Rightarrow> a = CHR ''0'' \<and> (b = CHR ''x'' \<or> b = CHR ''X'')
                 | _ \<Rightarrow> False);
          R = (if hex then 16 else 10);
          s2 = (if hex then drop 2 s1 else s1);
          Z = takeWhile (is_digit R) s2;
          v = int (foldl (\<lambda>a c. a * R + digit_val c) 0 Z)
      in if Z = [] then None else Some (if neg then - v else v))"

definition parseInt :: "string option \<Rightarrow> int option" where
  "parseInt a = (case a of None \<Rightarrow> None | Some s \<Rightarrow> parseInt_string s)"

subsection \<open>The question bank (\<^verbatim>\<open>data/subjects.json\<close>)\<close>

record question =
  answer :: string

record topic =
  topic_id :: string
  title :: string
  questions :: "question list"

record subject =
  subject_name :: string
  topics :: "topic list"

text \<open>
  The loop over \<^verbatim>\<open>data.subjects\<close>: the first subject that has a topic with the requested
  id, and the first such topic in it.
\<close>

fun find_topic :: "subject list \<Rightarrow> string \<Rightarrow> (subject \<times> topic) option" where
  "find_topic [] topicId = None"
| "find_topic (s # ss) topicId =
     (case find (\<lambda>t. topic_id t = topicId) (topics s) of
        Some t \<Rightarrow> Some (s, t)
      | None \<Rightarrow> find_topic ss topicId)"

text \<open>\<^verbatim>\<open>parseInt(questionId.split('_Q')[1]) - 1\<close>\<close>

definition qIndex :: "string \<Rightarrow> int option" where
  "qIndex questionId = map_option (\<lambda>k. k - 1) (parseInt (at_index (split_Q questionId) 1))"

text \<open>\<^verbatim>\<open>topic.questions[qIndex]?.answer\<close>: \<^verbatim>\<open>undefined\<close> for \<^verbatim>\<open>NaN\<close> and outside the array.\<close>

definition answer_at :: "question list \<Rightarrow> int option \<Rightarrow> string option" where
  "answer_at qs i =
     (case i of
        None \<Rightarrow> None
      | Some k \<Rightarrow> if 0 \<le> k \<and> k < int (length qs) then Some (answer (qs ! nat k)) else None)"

text \<open>
  Lines 36 to 57 of the handler: the loop leaves \<^verbatim>\<open>correctAnswer\<close>, \<^verbatim>\<open>topicTitle\<close> and
  \<^verbatim>\<open>subjectName\<close>, and \<^verbatim>\<open>!correctAnswer\<close> answers 404. \<^verbatim>\<open>correctAnswer\<close> is falsy when
  no topic matches (\<^verbatim>\<open>null\<close>), when the index names no question (\<^verbatim>\<open>undefined\<close>) and when
  the stored answer is the empty string. \<^term>\<open>None\<close> is the 404 case; otherwise the three
  variables are returned.
\<close>

definition resolve_question ::
  "subject list \<Rightarrow> string \<Rightarrow> string \<Rightarrow> (string \<times> string \<times> string) option" where
  "resolve_question subjects topicId questionId =
     (case find_topic subjects topicId of
        None \<Rightarrow> None
      | Some (s, t) \<Rightarrow>
          (case answer_at (questions t) (qIndex questionId) of
             None \<Rightarrow> None
           | Some ca \<Rightarrow> if ca = [] then None else Some (ca, title t, subject_name s)))"

text \<open>\<^verbatim>\<open>userAnswer.toUpperCase() === correctAnswer.toUpperCase()\<close>\<close>

definition answers_match :: "string \<Rightarrow> string \<Rightarrow> bool" where
  "answers_match userAnswer correctAnswer = (toUpperCase userAnswer = toUpperCase correctAnswer)"

subsection \<open>The stored documents\<close>

type_synonym user_id = nat

record attempt =
  userId :: user_id
  topicId :: string
  questionId :: string
  userAnswer :: string
  correctAnswer :: string
  isCorrect :: bool
  timeTaken :: "real option"
  timestamp :: int

text \<open>
  A \<^verbatim>\<open>Progress\<close> document without its key (\<^verbatim>\<open>userId\<close>, \<^verbatim>\<open>topicId\<close>) and without the
  spaced-repetition fields (\<^verbatim>\<open>nextReview\<close>, \<^verbatim>\<open>easinessFactor\<close>, \<^verbatim>\<open>interval\<close>,
  \<^verbatim>\<open>repetitions\<close>), which neither handler reads or writes.
\<close>

record progress =
  subjectName :: string
  topicTitle :: string
  mastery :: real
  attempts :: int
  corrects :: int
  lastReview :: "int option"
  emaAlpha :: real

text \<open>The \<^verbatim>\<open>stats\<close> sub-document of a \<^verbatim>\<open>User\<close>.\<close>

record userStats =
  totalAttempts :: int
  totalCorrect :: int
  currentStreak :: int
  longestStreak :: int
  lastStudyDate :: "int option"

text \<open>
  The database: the attempts in insertion order, the progress documents under their
  unique index (\<^verbatim>\<open>userId\<close>, \<^verbatim>\<open>topicId\<close>), and the stats of each user.
\<close>

record db =
  db_attempts :: "attempt list"
  db_progress :: "user_id \<times> string \<rightharpoonup> progress"
  db_users :: "user_id \<rightharpoonup> userStats"

subsection \<open>\<^verbatim>\<open>POST /api/progress/submit-answer\<close>\<close>

text \<open>
  Every awaited operation of the handler may reject, and the \<^verbatim>\<open>catch\<close> block then
  answers 500. Which operations reject is an input of the model (\<open>throws\<close>).
\<close>

datatype db_op =
  LoadSubjects | AttemptCreate | ProgressFindOne | ProgressCreate | ProgressSave
  | UserFindById | UserSave | IoEmit

record submit_result =
  res_isCorrect :: bool
  res_correctAnswer :: string
  res_mastery :: real
  res_attempts :: int
  res_corrects :: int
  res_userStats :: userStats

datatype response = QuestionNotFound | ServerError | Success submit_result

text \<open>\<^verbatim>\<open>Progress.create({..., mastery: 0.2, attempts: 0, corrects: 0})\<close> with the schema's defaults.\<close>

definition Progress_create :: "string \<Rightarrow> string \<Rightarrow> progress" where
  "Progress_create sn tt =
     \<lparr>subjectName = sn, topicTitle = tt, mastery = 0.2, attempts = 0, corrects = 0,
      lastReview = None, emaAlpha = 0.3\<rparr>"

text \<open>
  Lines 74 to 86: the document \<^verbatim>\<open>Progress.findOne\<close> returns, or the one
  \<^verbatim>\<open>Progress.create\<close> makes when there is none.
\<close>

definition prior_progress :: "db \<Rightarrow> user_id \<Rightarrow> string \<Rightarrow> string \<Rightarrow> string \<Rightarrow> progress" where
  "prior_progress s uid tid sn ttl =
     (case db_progress s (uid, tid) of None \<Rightarrow> Progress_create sn ttl | Some p0 \<Rightarrow> p0)"

text \<open>\<^verbatim>\<open>alpha * (isCorrect ? 1 : 0) + (1 - alpha) * progress.mastery\<close>\<close>

definition newMastery :: "real \<Rightarrow> bool \<Rightarrow> real \<Rightarrow> real" where
  "newMastery alpha correct m = alpha * (if correct then 1 else 0) + (1 - alpha) * m"

text \<open>Lines 89 to 95: the fields of \<^verbatim>\<open>progress\<close> that are assigned before \<^verbatim>\<open>progress.save()\<close>.\<close>

definition update_progress :: "bool \<Rightarrow> int \<Rightarrow> progress \<Rightarrow> progress" where
  "update_progress correct now p =
     p\<lparr>mastery := newMastery (emaAlpha p) correct (mastery p),
       attempts := attempts p + 1,
       corrects := corrects p + (if correct then 1 else 0),
       lastReview := Some now\<rparr>"

text \<open>Lines 100 and 101.\<close>

definition update_totals :: "bool \<Rightarrow> userStats \<Rightarrow> userStats" where
  "update_totals correct u =
     u\<lparr>totalAttempts := totalAttempts u + 1,
       totalCorrect := totalCorrect u + (if correct then 1 else 0)\<rparr>"

text \<open>
  Lines 104 to 119. \<open>setHours0\<close> is \<^verbatim>\<open>d.setHours(0, 0, 0, 0)\<close>, the local midnight before a
  time, which depends on the host's time zone and is a parameter. \<^verbatim>\<open>lastStudy\<close> is a
  number of milliseconds or \<^verbatim>\<open>null\<close>, and \<^verbatim>\<open>if (lastStudy)\<close> takes the \<^verbatim>\<open>else\<close> branch for
  \<^verbatim>\<open>null\<close> and for the number 0. \<^verbatim>\<open>daysDiff\<close> is a quotient of numbers, not rounded.
\<close>

definition msPerDay :: int where
  "msPerDay = 1000 * 60 * 60 * 24"

text \<open>\<^verbatim>\<open>(today - lastStudy) / (1000 * 60 * 60 * 24)\<close>\<close>

definition daysDiff :: "int \<Rightarrow> int \<Rightarrow> real" where
  "daysDiff today lastStudy = real_of_int (today - lastStudy) / real_of_int msPerDay"

definition update_streak :: "(int \<Rightarrow> int) \<Rightarrow> int \<Rightarrow> userStats \<Rightarrow> userStats" where
  "update_streak setHours0 now u =
     (let today = setHours0 now;
          lastStudy = map_option setHours0 (lastStudyDate u);
          streak =
            (case lastStudy of
               None \<Rightarrow> 1
             | Some l \<Rightarrow>
                 if l = 0 then 1
                 else
                   if daysDiff today l = 1 then currentStreak u + 1
                   else if daysDiff today l > 1 then 1
                   else currentStreak u)
      in u\<lparr>currentStreak := streak,
           longestStreak := max (longestStreak u) streak,
           lastStudyDate := Some now\<rparr>)"

text \<open>
  Lines 59 to 143 of the handler, which run once the question has resolved: the
  comparison of the answers and the three writes. The four readings of the clock
  (\<^verbatim>\<open>new Date()\<close>) are one instant \<open>now\<close>. The result is the response and the database the
  request leaves behind. A user document that \<^verbatim>\<open>User.findById\<close> does not find makes
  \<^verbatim>\<open>user.stats\<close> throw. A rejection by the validation of a schema is a rejection of the
  operation, so it is one of the cases of \<open>throws\<close>.
\<close>

definition record_answer ::
  "(int \<Rightarrow> int) \<Rightarrow> (db_op \<Rightarrow> bool) \<Rightarrow> int \<Rightarrow> user_id \<Rightarrow> string \<Rightarrow> string \<Rightarrow> string \<Rightarrow>
   real option \<Rightarrow> string \<Rightarrow> string \<Rightarrow> string \<Rightarrow> db \<Rightarrow> response \<times> db" where
  "record_answer setHours0 throws now uid tid qid ua tt ca ttl sn s =
     (let correct = answers_match ua ca in
      if throws AttemptCreate then (ServerError, s)
      else
        let s1 = s\<lparr>db_attempts := db_attempts s @
                   [\<lparr>userId = uid, topicId = tid, questionId = qid, userAnswer = ua,
                     correctAnswer = ca, isCorrect = correct, timeTaken = tt,
                     timestamp = now\<rparr>]\<rparr> in
        if throws ProgressFindOne then (ServerError, s1)
        else if db_progress s1 (uid, tid) = None \<and> throws ProgressCreate
        then (ServerError, s1)
        else
          let p = prior_progress s1 uid tid sn ttl;
              s2 = s1\<lparr>db_progress := (db_progress s1)((uid, tid) \<mapsto> p)\<rparr> in
          if throws ProgressSave then (ServerError, s2)
          else
            let p' = update_progress correct now p;
                s3 = s2\<lparr>db_progress := (db_progress s2)((uid, tid) \<mapsto> p')\<rparr> in
            if throws UserFindById then (ServerError, s3)
            else
              (case db_users s3 uid of
                 None \<Rightarrow> (ServerError, s3)
               | Some u \<Rightarrow>
                   let u' = update_streak setHours0 now (update_totals correct u) in
                   if throws UserSave then (ServerError, s3)
                   else
                     let s4 = s3\<lparr>db_users := (db_users s3)(uid \<mapsto> u')\<rparr> in
                     if throws IoEmit then (ServerError, s4)
                     else
                       (Success \<lparr>res_isCorrect = correct, res_correctAnswer = ca,
                          res_mastery = mastery p', res_attempts = attempts p',
                          res_corrects = corrects p', res_userStats = u'\<rparr>, s4)))"

text \<open>
  The handler. A field of the request body is \<^term>\<open>None\<close> when it is absent or not a
  string. A \<^verbatim>\<open>topicId\<close> that is not a string equals no \<^verbatim>\<open>topic_id\<close>. When the topic is found,
  \<^verbatim>\<open>questionId.split\<close> throws a \<^verbatim>\<open>TypeError\<close> for a \<^verbatim>\<open>questionId\<close> that is not a string, and
  so does \<^verbatim>\<open>userAnswer.toUpperCase\<close> on line 59 for such a \<^verbatim>\<open>userAnswer\<close>; the \<^verbatim>\<open>catch\<close> block
  answers 500.
\<close>

definition submit_answer ::
  "subject list \<Rightarrow> (int \<Rightarrow> int) \<Rightarrow> (db_op \<Rightarrow> bool) \<Rightarrow> int \<Rightarrow> user_id \<Rightarrow>
   string option \<Rightarrow> string option \<Rightarrow> string option \<Rightarrow> real option \<Rightarrow> db \<Rightarrow> response \<times> db" where
  "submit_answer subjects setHours0 throws now uid tidO qidO uaO tt s =
     (if throws LoadSubjects then (ServerError, s)
      else
        (case tidO of
           None \<Rightarrow> (QuestionNotFound, s)
         | Some tid \<Rightarrow>
             (case qidO of
                None \<Rightarrow>
                  if find_topic subjects tid = None then (QuestionNotFound, s)
                  else (ServerError, s)
              | Some qid \<Rightarrow>
                  (case resolve_question subjects tid qid of
                     None \<Rightarrow> (QuestionNotFound, s)
                   | Some (ca, ttl, sn) \<Rightarrow>
                       (case uaO of
                          None \<Rightarrow> (ServerError, s)
                        | Some ua \<Rightarrow>
                            record_answer setHours0 throws now uid tid qid ua tt ca ttl sn s)))))"


text \<open>
  The stats of a user after each of a series of submissions, each given by its time and
  by whether its answer is correct: lines 99 to 119 applied in turn.
\<close>

fun stats_after :: "(int \<Rightarrow> int) \<Rightarrow> (int \<times> bool) list \<Rightarrow> userStats \<Rightarrow> userStats list" where
  "stats_after setHours0 [] u = []"
| "stats_after setHours0 ((t, c) # ts) u =
     (let u' = update_streak setHours0 t (update_totals c u) in u' # stats_after setHours0 ts u')"

text \<open>
  A series of requests of one user, each with its time, \<^verbatim>\<open>topicId\<close>, \<^verbatim>\<open>questionId\<close> and
  \<^verbatim>\<open>userAnswer\<close>, handled one after the other: the user's stats in the database after each.
\<close>

fun stats_of_submissions ::
  "subject list \<Rightarrow> (int \<Rightarrow> int) \<Rightarrow> (db_op \<Rightarrow> bool) \<Rightarrow> user_id \<Rightarrow>
   (int \<times> string \<times> string \<times> string) list \<Rightarrow> db \<Rightarrow> userStats option list" where
  "stats_of_submissions subjects setHours0 throws uid [] s = []"
| "stats_of_submissions subjects setHours0 throws uid ((now, tid, qid, ua) # rs) s =
     (let s' = snd (submit_answer subjects setHours0 throws now uid (Some tid) (Some qid) (Some ua)
                      None s)
      in db_users s' uid # stats_of_submissions subjects setHours0 throws uid rs s')"

text \<open>The time of a request and whether its answer is correct.\<close>

definition outcome :: "subject list \<Rightarrow> int \<times> string \<times> string \<times> string \<Rightarrow> int \<times> bool" where
  "outcome subjects r =
     (case r of (now, tid, qid, ua) \<Rightarrow>
        (now, case resolve_question subjects tid qid of
                None \<Rightarrow> False
              | Some (ca, ttl, sn) \<Rightarrow> answers_match ua ca))"

text \<open>\<^verbatim>\<open>setHours(0, 0, 0, 0)\<close> on a host whose time zone is UTC.\<close>

definition utc_midnight :: "int \<Rightarrow> int" where
  "utc_midnight t = t - t mod msPerDay"

subsection \<open>\<^verbatim>\<open>GET /api/recommendations\<close>\<close>

record topic_info =
  info_topicId :: string
  info_title :: string
  info_subjectName :: string

text \<open>\<^verbatim>\<open>getAllTopicIds\<close>: the topics of all subjects, in the order of the file.\<close>

definition getAllTopicIds :: "subject list \<Rightarrow> topic_info list" where
  "getAllTopicIds subjects =
     concat (map (\<lambda>s. map (\<lambda>t. \<lparr>info_topicId = topic_id t, info_title = title t,
                                    info_subjectName = subject_name s\<rparr>) (topics s)) subjects)"

text \<open>
  \<^verbatim>\<open>Attempt.find({ userId }).sort({ timestamp: -1 }).limit(100)\<close>: the user's attempts,
  latest first, at most 100. Attempts with the same timestamp stay in insertion order.
\<close>

definition recentAttempts :: "user_id \<Rightarrow> db \<Rightarrow> attempt list" where
  "recentAttempts uid s =
     take 100 (sort_key (\<lambda>a. - timestamp a) (filter (\<lambda>a. userId a = uid) (db_attempts s)))"

record recommendation =
  rec_topicId :: string
  rec_title :: string
  rec_subjectName :: string
  rec_mastery :: real
  score :: real
  daysSinceLastReview :: int
  recentPerformance :: "real option"

text \<open>\<^verbatim>\<open>lastReview ? (now - new Date(lastReview)) / (1000 * 60 * 60 * 24) : 999\<close>\<close>

definition daysSince :: "int \<Rightarrow> int option \<Rightarrow> real" where
  "daysSince now lr =
     (case lr of None \<Rightarrow> 999 | Some t \<Rightarrow> real_of_int (now - t) / real_of_int msPerDay)"

text \<open>\<^verbatim>\<open>1 + 0.5 * Math.min(daysSince / 30, 2)\<close>\<close>

definition recencyFactor :: "real \<Rightarrow> real" where
  "recencyFactor d = 1 + 0.5 * min (d / 30) 2"

definition recentCorrect :: "attempt list \<Rightarrow> nat" where
  "recentCorrect topicAttempts = length (filter isCorrect (take 5 topicAttempts))"

definition recentTotal :: "attempt list \<Rightarrow> nat" where
  "recentTotal topicAttempts = min (length topicAttempts) 5"

text \<open>\<^verbatim>\<open>recentTotal > 0 && recentCorrect / recentTotal < 0.4 ? 0.3 : 0\<close>\<close>

definition strugglingBonus :: "attempt list \<Rightarrow> real" where
  "strugglingBonus topicAttempts =
     (if recentTotal topicAttempts > 0 \<and>
         real (recentCorrect topicAttempts) / real (recentTotal topicAttempts) < 0.4
      then 0.3 else 0)"

text \<open>\<^verbatim>\<open>Math.round\<close>: the nearest integer, a half rounded up.\<close>

definition Math_round :: "real \<Rightarrow> int" where
  "Math_round x = \<lfloor>x + 1 / 2\<rfloor>"

text \<open>The body of the loop over \<^verbatim>\<open>allTopics\<close>: the entry pushed for one topic.\<close>

definition topic_score ::
  "int \<Rightarrow> (string \<Rightarrow> progress option) \<Rightarrow> attempt list \<Rightarrow> topic_info \<Rightarrow> recommendation" where
  "topic_score now progressMap recent t =
     (let prog = progressMap (info_topicId t);
          m = (case prog of None \<Rightarrow> 0.2 | Some p \<Rightarrow> mastery p);
          lr = (case prog of None \<Rightarrow> None | Some p \<Rightarrow> lastReview p);
          d = daysSince now lr;
          baseScore = (1 - m) * recencyFactor d;
          topicAttempts = filter (\<lambda>a. topicId a = info_topicId t) recent;
          finalScore = baseScore + strugglingBonus topicAttempts
      in \<lparr>rec_topicId = info_topicId t, rec_title = info_title t,
          rec_subjectName = info_subjectName t, rec_mastery = m, score = finalScore,
          daysSinceLastReview = Math_round d,
          recentPerformance =
            (if recentTotal topicAttempts > 0
             then Some (real (recentCorrect topicAttempts) / real (recentTotal topicAttempts) * 100)
             else None)\<rparr>)"

text \<open>
  \<^verbatim>\<open>scores.sort((a, b) => b.score - a.score)\<close>: a stable sort (ECMAScript 2019) into
  descending score.
\<close>

definition sort_scores :: "recommendation list \<Rightarrow> recommendation list" where
  "sort_scores scores = sort_key (\<lambda>e. - score e) scores"

text \<open>
  \<^verbatim>\<open>xs.slice(0, end)\<close>: \<^verbatim>\<open>NaN\<close> counts as 0, and a negative \<^verbatim>\<open>end\<close> counts from the end of
  the array.
\<close>

definition slice0 :: "'a list \<Rightarrow> int option \<Rightarrow> 'a list" where
  "slice0 xs e =
     (case e of
        None \<Rightarrow> []
      | Some k \<Rightarrow> if k < 0 then take (nat (int (length xs) + k)) xs else take (nat k) xs)"

text \<open>
  The handler. The query parameter \<open>n\<close> is a string or absent; absent, it is the number
  3, which \<^verbatim>\<open>parseInt\<close> reads as the string \<^verbatim>\<open>"3"\<close>. The handler only reads the database.
\<close>

definition recommendations :: "subject list \<Rightarrow> int \<Rightarrow> user_id \<Rightarrow> string option \<Rightarrow> db \<Rightarrow> recommendation list" where
  "recommendations subjects now uid n s =
     (let allTopics = getAllTopicIds subjects;
          progressMap = (\<lambda>tid. db_progress s (uid, tid));
          scores = map (topic_score now progressMap (recentAttempts uid s)) allTopics
      in slice0 (sort_scores scores)
           (parseInt (Some (case n of None \<Rightarrow> ''3'' | Some v \<Rightarrow> v))))"

subsection \<open>Sample data\<close>

definition sample_subjects :: "subject list" where
  "sample_subjects =
     [\<lparr>subject_name = ''Math'',
       topics =
         [\<lparr>topic_id = ''T1'', title = ''Algebra'',
           questions = [\<lparr>answer = ''a ''\<rparr>, \<lparr>answer = ''B''\<rparr>, \<lparr>answer = ''a''\<rparr>, \<lparr>answer = []\<rparr>]\<rparr>,
          \<lparr>topic_id = ''T2'', title = ''Geometry'', questions = [\<lparr>answer = ''C''\<rparr>]\<rparr>]\<rparr>,
      \<lparr>subject_name = ''Science'',
       topics = [\<lparr>topic_id = ''T3'', title = ''Biology'', questions = [\<lparr>answer = ''D''\<rparr>]\<rparr>]\<rparr>]"

text \<open>The stats of a new user, by the schema's defaults.\<close>

definition new_stats :: userStats where
  "new_stats =
     \<lparr>totalAttempts = 0, totalCorrect = 0, currentStreak = 0, longestStreak = 0,
      lastStudyDate = None\<rparr>"

definition sample_db :: db where
  "sample_db = \<lparr>db_attempts = [], db_progress = Map.empty, db_users = [0 \<mapsto> new_stats]\<rparr>"

definition no_throw :: "db_op \<Rightarrow> bool" where
  "no_throw op = False"



definition sample_now :: int where
  "sample_now = 1730000000000"

text \<open>An attempt of the sample user on a topic, with its outcome and its time.\<close>

definition sample_attempt :: "string \<Rightarrow> bool \<Rightarrow> int \<Rightarrow> attempt" where
  "sample_attempt tid c ts =
     \<lparr>userId = 0, topicId = tid, questionId = tid @ ''_Q1'', userAnswer = ''x'',
      correctAnswer = ''y'', isCorrect = c, timeTaken = None, timestamp = ts\<rparr>"

text \<open>
  The sample user after five attempts at the first topic, four of them wrong, and one at
  the second; the first topic was reviewed three days before \<open>sample_now\<close>.
\<close>

definition review_db :: db where
  "review_db =
     \<lparr>db_attempts =
        [sample_attempt ''T1'' True 1000, sample_attempt ''T1'' False 2000,
         sample_attempt ''T2'' True 2500, sample_attempt ''T1'' False 3000,
         sample_attempt ''T1'' False 4000, sample_attempt ''T1'' False 5000],
      db_progress =
        [(0, ''T1'') \<mapsto> \<lparr>subjectName = ''Math'', topicTitle = ''Algebra'', mastery = 0.5,
            attempts = 5, corrects = 1, lastReview = Some (sample_now - 3 * msPerDay),
            emaAlpha = 0.3\<rparr>],
      db_users = [0 \<mapsto> new_stats]\<rparr>"

text \<open>A progress document whose \<^verbatim>\<open>lastReview\<close> is one day after \<open>sample_now\<close>.\<close>

definition skew_db :: db where
  "skew_db =
     \<lparr>db_attempts = [],
      db_progress =
        [(0, ''T1'') \<mapsto> \<lparr>subjectName = ''Math'', topicTitle = ''Algebra'', mastery = 0.5,
            attempts = 5, corrects = 1, lastReview = Some (sample_now + msPerDay),
            emaAlpha = 0.3\<rparr>],
      db_users = [0 \<mapsto> new_stats]\<rparr>"

text \<open>
  The first topic was reviewed one day before \<open>sample_now\<close> and has mastery 0.2; the other
  topics have no progress document.
\<close>

definition yesterday_db :: db where
  "yesterday_db =
     \<lparr>db_attempts = [],
      db_progress =
        [(0, ''T1'') \<mapsto> \<lparr>subjectName = ''Math'', topicTitle = ''Algebra'', mastery = 0.2,
            attempts = 0, corrects = 0, lastReview = Some (sample_now - msPerDay),
            emaAlpha = 0.3\<rparr>],
      db_users = [0 \<mapsto> new_stats]\<rparr>"

text \<open>The entries of \<^verbatim>\<open>allTopics\<close> for the sample bank.\<close>

definition info_T1 :: topic_info where
  "info_T1 = \<lparr>info_topicId = ''T1'', info_title = ''Algebra'', info_subjectName = ''Math''\<rparr>"

definition info_T3 :: topic_info where
  "info_T3 = \<lparr>info_topicId = ''T3'', info_title = ''Biology'', info_subjectName = ''Science''\<rparr>"

definition info_T2 :: topic_info where
  "info_T2 = \<lparr>info_topicId = ''T2'', info_title = ''Geometry'', info_subjectName = ''Math''\<rparr>"

section \<open>Properties of answer submission\<close>

subsection \<open>The mastery update\<close>



lemma sample_resolve_Q2:
  "resolve_question sample_subjects ''T1'' ''T1_Q2'' = Some (''B'', ''Algebra'', ''Math'')"
  by code_simp






subsection \<open>What a successful submission leaves behind\<close>

lemma submit_answer_Success:
  assumes "submit_answer subjects mid throws now uid tidO qidO uaO tt s = (Success r, s')"
  shows "\<exists>tid qid ua ca ttl sn u.
           tidO = Some tid \<and> qidO = Some qid \<and> uaO = Some ua \<and>
           resolve_question subjects tid qid = Some (ca, ttl, sn) \<and> db_users s uid = Some u \<and>
           res_isCorrect r = answers_match ua ca \<and> res_correctAnswer r = ca \<and>
           res_userStats r = update_streak mid now (update_totals (answers_match ua ca) u) \<and>
           db_progress s' (uid, tid) =
             Some (update_progress (answers_match ua ca) now (prior_progress s uid tid sn ttl)) \<and>
           db_users s' uid = Some (update_streak mid now (update_totals (answers_match ua ca) u))"
  using assms
  by (auto simp: submit_answer_def record_answer_def Let_def prior_progress_def
      split: option.splits if_splits)

subsection \<open>The streak\<close>

lemma msPerDay_pos: "0 < msPerDay" by (simp add: msPerDay_def)

lemma daysDiff_0: "daysDiff a b = 0 \<longleftrightarrow> a = b"
  using msPerDay_pos by (simp add: daysDiff_def)

lemma daysDiff_1: "daysDiff a b = 1 \<longleftrightarrow> a - b = msPerDay"
proof -
  have "daysDiff a b = 1 \<longleftrightarrow> real_of_int (a - b) = real_of_int msPerDay"
    using msPerDay_pos unfolding daysDiff_def by (auto simp del: of_int_diff)
  then show ?thesis by (simp only: of_int_eq_iff)
qed

lemma daysDiff_gt_1: "daysDiff a b > 1 \<longleftrightarrow> a - b > msPerDay"
proof -
  have "daysDiff a b > 1 \<longleftrightarrow> real_of_int msPerDay < real_of_int (a - b)"
    using msPerDay_pos unfolding daysDiff_def by (auto simp del: of_int_diff)
  then show ?thesis by (simp only: of_int_less_iff)
qed

lemma utc_midnight_day:
  assumes "0 \<le> ofs" "ofs < msPerDay"
  shows "utc_midnight (D * msPerDay + ofs) = D * msPerDay"
  using assms by (simp add: utc_midnight_def)

lemma update_streak_fields:
  "lastStudyDate (update_streak mid now u) = Some now"
  "longestStreak (update_streak mid now u) = max (longestStreak u) (currentStreak (update_streak mid now u))"
  "totalAttempts (update_streak mid now u) = totalAttempts u"
  "totalCorrect (update_streak mid now u) = totalCorrect u"
  by (simp_all add: update_streak_def Let_def)

lemma update_streak_current:
  "currentStreak (update_streak mid now u) =
     (case lastStudyDate u of
        None \<Rightarrow> 1
      | Some d \<Rightarrow>
          if mid d = 0 then 1
          else if mid now - mid d = msPerDay then currentStreak u + 1
          else if mid now - mid d > msPerDay then 1
          else currentStreak u)"
  by (simp add: update_streak_def Let_def daysDiff_1 daysDiff_gt_1 split: option.splits)

lemma update_totals_fields:
  "currentStreak (update_totals c u) = currentStreak u"
  "longestStreak (update_totals c u) = longestStreak u"
  "lastStudyDate (update_totals c u) = lastStudyDate u"
  by (simp_all add: update_totals_def)

text \<open>
  Submissions on the days \<open>D\<close>, \<open>D\<close>, \<open>D + 1\<close> and \<open>D + 3\<close> after the epoch day, at any times of
  these days, on a host in UTC and from the stats of a new user.
\<close>

lemma streak_days:
  assumes D: "0 < D"
    and o: "0 \<le> o1" "o1 < msPerDay" "0 \<le> o2" "o2 < msPerDay" "0 \<le> o3" "o3 < msPerDay"
       "0 \<le> o4" "o4 < msPerDay"
  shows "map currentStreak (stats_after utc_midnight
           [(D * msPerDay + o1, c1), (D * msPerDay + o2, c2), ((D + 1) * msPerDay + o3, c3),
            ((D + 3) * msPerDay + o4, c4)] new_stats) = [1, 1, 2, 1] \<and>
         map longestStreak (stats_after utc_midnight
           [(D * msPerDay + o1, c1), (D * msPerDay + o2, c2), ((D + 1) * msPerDay + o3, c3),
            ((D + 3) * msPerDay + o4, c4)] new_stats) = [1, 1, 2, 2]"
proof -
  have m: "0 < msPerDay" by (rule msPerDay_pos)
  have nz: "D * msPerDay \<noteq> 0" "(D + 1) * msPerDay \<noteq> 0" using D m by simp_all
  have d1: "(D + 1) * msPerDay - D * msPerDay = msPerDay" by (simp add: algebra_simps)
  have d3: "(D + 3) * msPerDay - (D + 1) * msPerDay = 2 * msPerDay" by (simp add: algebra_simps)
  have g: "2 * msPerDay \<noteq> msPerDay" "2 * msPerDay > msPerDay" using m by simp_all
  show ?thesis
    using nz g
    by (simp add: Let_def update_streak_current update_streak_fields update_totals_fields
        utc_midnight_day o d1 d3 new_stats_def)
qed


text \<open>
  A series of submissions that resolve and meet no rejection takes the user's stats
  through lines 99 to 119 once for each submission.
\<close>

lemma submit_answer_user_stats:
  assumes "resolve_question subjects tid qid = Some (ca, ttl, sn)" "db_users s uid = Some u"
    and "\<forall>op. \<not> throws op"
  shows "db_users (snd (submit_answer subjects mid throws now uid (Some tid) (Some qid) (Some ua) tt s)) uid =
           Some (update_streak mid now (update_totals (answers_match ua ca) u))"
  using assms by (simp add: submit_answer_def record_answer_def Let_def)

lemma stats_of_submissions_stats_after:
  assumes nt: "\<forall>op. \<not> throws op"
  shows "db_users s uid = Some u \<Longrightarrow>
         \<forall>r \<in> set reqs. (case r of (now, tid, qid, ua) \<Rightarrow> resolve_question subjects tid qid \<noteq> None) \<Longrightarrow>
         stats_of_submissions subjects mid throws uid reqs s =
           map Some (stats_after mid (map (outcome subjects) reqs) u)"
proof (induction reqs arbitrary: s u)
  case Nil
  then show ?case by simp
next
  case (Cons r reqs)
  obtain now tid qid ua where r: "r = (now, tid, qid, ua)" by (cases r) auto
  from Cons.prems(2) r obtain ca ttl sn where
    res: "resolve_question subjects tid qid = Some (ca, ttl, sn)" by auto
  let ?s' = "snd (submit_answer subjects mid throws now uid (Some tid) (Some qid) (Some ua) None s)"
  let ?u' = "update_streak mid now (update_totals (answers_match ua ca) u)"
  have u': "db_users ?s' uid = Some ?u'"
    using res Cons.prems(1) nt by (rule submit_answer_user_stats)
  have rest: "\<forall>r \<in> set reqs. (case r of (now, tid, qid, ua) \<Rightarrow> resolve_question subjects tid qid \<noteq> None)"
    using Cons.prems(2) by simp
  have o: "outcome subjects (now, tid, qid, ua) = (now, answers_match ua ca)"
    by (simp add: outcome_def res)
  have "stats_of_submissions subjects mid throws uid reqs ?s' =
           map Some (stats_after mid (map (outcome subjects) reqs) ?u')"
    using u' rest by (rule Cons.IH)
  then show ?case by (simp add: r o u' Let_def)
qed


lemma map_option_map_Some: "map (map_option f) (map Some xs) = map Some (map f xs)"
  by (induction xs) simp_all

lemma submissions_streak_days:
  assumes nt: "\<forall>op. \<not> throws op"
    and u: "db_users s uid = Some new_stats"
    and res: "resolve_question subjects t1 q1 \<noteq> None" "resolve_question subjects t2 q2 \<noteq> None"
      "resolve_question subjects t3 q3 \<noteq> None" "resolve_question subjects t4 q4 \<noteq> None"
    and D: "0 < D"
    and o: "0 \<le> o1" "o1 < msPerDay" "0 \<le> o2" "o2 < msPerDay" "0 \<le> o3" "o3 < msPerDay"
       "0 \<le> o4" "o4 < msPerDay"
  shows "map (map_option currentStreak) (stats_of_submissions subjects utc_midnight throws uid
           [(D * msPerDay + o1, t1, q1, a1), (D * msPerDay + o2, t2, q2, a2),
            ((D + 1) * msPerDay + o3, t3, q3, a3), ((D + 3) * msPerDay + o4, t4, q4, a4)] s)
           = [Some 1, Some 1, Some 2, Some 1] \<and>
         map (map_option longestStreak) (stats_of_submissions subjects utc_midnight throws uid
           [(D * msPerDay + o1, t1, q1, a1), (D * msPerDay + o2, t2, q2, a2),
            ((D + 1) * msPerDay + o3, t3, q3, a3), ((D + 3) * msPerDay + o4, t4, q4, a4)] s)
           = [Some 1, Some 1, Some 2, Some 2]"
proof -
  let ?reqs = "[(D * msPerDay + o1, t1, q1, a1), (D * msPerDay + o2, t2, q2, a2),
            ((D + 1) * msPerDay + o3, t3, q3, a3), ((D + 3) * msPerDay + o4, t4, q4, a4)]"
  have all: "\<forall>r \<in> set ?reqs. (case r of (now, tid, qid, ua) \<Rightarrow> resolve_question subjects tid qid \<noteq> None)"
    using res by simp
  have e: "stats_of_submissions subjects utc_midnight throws uid ?reqs s =
      map Some (stats_after utc_midnight (map (outcome subjects) ?reqs) new_stats)"
    using nt u all by (rule stats_of_submissions_stats_after)
  obtain c1 c2 c3 c4 where c: "map (outcome subjects) ?reqs =
      [(D * msPerDay + o1, c1), (D * msPerDay + o2, c2), ((D + 1) * msPerDay + o3, c3),
       ((D + 3) * msPerDay + o4, c4)]"
    by (simp add: outcome_def)
  have sd: "map currentStreak (stats_after utc_midnight (map (outcome subjects) ?reqs) new_stats) = [1, 1, 2, 1]"
    "map longestStreak (stats_after utc_midnight (map (outcome subjects) ?reqs) new_stats) = [1, 1, 2, 2]"
    using streak_days [OF D o, of c1 c2 c3 c4] unfolding c by blast+
  have "map (map_option currentStreak) (stats_of_submissions subjects utc_midnight throws uid ?reqs s) =
      map Some (map currentStreak (stats_after utc_midnight (map (outcome subjects) ?reqs) new_stats))"
    unfolding e by (rule map_option_map_Some)
  moreover have "map (map_option longestStreak) (stats_of_submissions subjects utc_midnight throws uid ?reqs s) =
      map Some (map longestStreak (stats_after utc_midnight (map (outcome subjects) ?reqs) new_stats))"
    unfolding e by (rule map_option_map_Some)
  ultimately show ?thesis unfolding sd by simp
qed

text \<open>
  The streak policy. A successful submission sets \<^verbatim>\<open>currentStreak\<close> to 1 when
  \<^verbatim>\<open>lastStudyDate\<close> is \<^verbatim>\<open>null\<close>. Otherwise, provided the local midnight of \<^verbatim>\<open>lastStudyDate\<close> is
  not the timestamp 0 (which \<^verbatim>\<open>if (lastStudy)\<close> treats like \<^verbatim>\<open>null\<close>), the streak is unchanged
  when \<^verbatim>\<open>daysDiff\<close> is 0, incremented when it is 1, and reset to 1 when it is greater than 1.
  \<^verbatim>\<open>longestStreak\<close> becomes the maximum of its old value and the new streak, and
  \<^verbatim>\<open>lastStudyDate\<close> the current time. Four submissions of a new user that resolve and meet
  no rejection, on the days \<open>D\<close>, \<open>D\<close>, \<open>D + 1\<close>, \<open>D + 3\<close> after the epoch day of a host in UTC,
  leave the streaks 1, 1, 2, 1 and the longest streaks 1, 1, 2, 2.
\<close>

theorem streak_update_policy:
  assumes "submit_answer subjects mid throws now uid tidO qidO uaO tt s = (Success r, s')"
    and "db_users s uid = Some u"
  shows "\<exists>u'. db_users s' uid = Some u' \<and> res_userStats r = u' \<and>
           (lastStudyDate u = None \<longrightarrow> currentStreak u' = 1) \<and>
           (\<forall>d. lastStudyDate u = Some d \<and> mid d \<noteq> 0 \<longrightarrow>
              (daysDiff (mid now) (mid d) = 0 \<longrightarrow> currentStreak u' = currentStreak u) \<and>
              (daysDiff (mid now) (mid d) = 1 \<longrightarrow> currentStreak u' = currentStreak u + 1) \<and>
              (daysDiff (mid now) (mid d) > 1 \<longrightarrow> currentStreak u' = 1)) \<and>
           longestStreak u' = max (longestStreak u) (currentStreak u') \<and>
           lastStudyDate u' = Some now \<and>
           (\<forall>thr s0 D o1 o2 o3 o4 t1 q1 a1 t2 q2 a2 t3 q3 a3 t4 q4 a4.
              (\<forall>op. \<not> thr op) \<and> db_users s0 uid = Some new_stats \<and>
              resolve_question subjects t1 q1 \<noteq> None \<and> resolve_question subjects t2 q2 \<noteq> None \<and>
              resolve_question subjects t3 q3 \<noteq> None \<and> resolve_question subjects t4 q4 \<noteq> None \<and>
              0 < D \<and> 0 \<le> o1 \<and> o1 < msPerDay \<and> 0 \<le> o2 \<and> o2 < msPerDay \<and>
              0 \<le> o3 \<and> o3 < msPerDay \<and> 0 \<le> o4 \<and> o4 < msPerDay \<longrightarrow>
              map (map_option currentStreak) (stats_of_submissions subjects utc_midnight thr uid
                [(D * msPerDay + o1, t1, q1, a1), (D * msPerDay + o2, t2, q2, a2),
                 ((D + 1) * msPerDay + o3, t3, q3, a3), ((D + 3) * msPerDay + o4, t4, q4, a4)] s0)
                = [Some 1, Some 1, Some 2, Some 1] \<and>
              map (map_option longestStreak) (stats_of_submissions subjects utc_midnight thr uid
                [(D * msPerDay + o1, t1, q1, a1), (D * msPerDay + o2, t2, q2, a2),
                 ((D + 1) * msPerDay + o3, t3, q3, a3), ((D + 3) * msPerDay + o4, t4, q4, a4)] s0)
                = [Some 1, Some 1, Some 2, Some 2])"
proof -
  from submit_answer_Success [OF assms(1)] assms(2)
  obtain ua ca where r: "res_userStats r = update_streak mid now (update_totals (answers_match ua ca) u)"
    and s': "db_users s' uid = Some (update_streak mid now (update_totals (answers_match ua ca) u))"
    by auto
  let ?u = "update_streak mid now (update_totals (answers_match ua ca) u)"
  have cur: "currentStreak ?u =
     (case lastStudyDate u of
        None \<Rightarrow> 1
      | Some d \<Rightarrow>
          if mid d = 0 then 1
          else if mid now - mid d = msPerDay then currentStreak u + 1
          else if mid now - mid d > msPerDay then 1
          else currentStreak u)"
    by (simp add: update_streak_current update_totals_fields split: option.splits)
  have a: "lastStudyDate u = None \<longrightarrow> currentStreak ?u = 1"
    by (simp add: cur)
  have b: "\<forall>d. lastStudyDate u = Some d \<and> mid d \<noteq> 0 \<longrightarrow>
              (daysDiff (mid now) (mid d) = 0 \<longrightarrow> currentStreak ?u = currentStreak u) \<and>
              (daysDiff (mid now) (mid d) = 1 \<longrightarrow> currentStreak ?u = currentStreak u + 1) \<and>
              (daysDiff (mid now) (mid d) > 1 \<longrightarrow> currentStreak ?u = 1)"
    using msPerDay_pos by (auto simp: cur daysDiff_0 daysDiff_1 daysDiff_gt_1)
  have c: "longestStreak ?u = max (longestStreak u) (currentStreak ?u)" "lastStudyDate ?u = Some now"
    by (simp_all add: update_streak_fields update_totals_fields)
  have seq: "(\<forall>thr s0 D o1 o2 o3 o4 t1 q1 a1 t2 q2 a2 t3 q3 a3 t4 q4 a4.
      (\<forall>op. \<not> thr op) \<and> db_users s0 uid = Some new_stats \<and>
      resolve_question subjects t1 q1 \<noteq> None \<and> resolve_question subjects t2 q2 \<noteq> None \<and>
      resolve_question subjects t3 q3 \<noteq> None \<and> resolve_question subjects t4 q4 \<noteq> None \<and>
      0 < D \<and> 0 \<le> o1 \<and> o1 < msPerDay \<and> 0 \<le> o2 \<and> o2 < msPerDay \<and>
      0 \<le> o3 \<and> o3 < msPerDay \<and> 0 \<le> o4 \<and> o4 < msPerDay \<longrightarrow>
      map (map_option currentStreak) (stats_of_submissions subjects utc_midnight thr uid
        [(D * msPerDay + o1, t1, q1, a1), (D * msPerDay + o2, t2, q2, a2),
         ((D + 1) * msPerDay + o3, t3, q3, a3), ((D + 3) * msPerDay + o4, t4, q4, a4)] s0)
        = [Some 1, Some 1, Some 2, Some 1] \<and>
      map (map_option longestStreak) (stats_of_submissions subjects utc_midnight thr uid
        [(D * msPerDay + o1, t1, q1, a1), (D * msPerDay + o2, t2, q2, a2),
         ((D + 1) * msPerDay + o3, t3, q3, a3), ((D + 3) * msPerDay + o4, t4, q4, a4)] s0)
        = [Some 1, Some 1, Some 2, Some 2])"
  proof (intro allI impI)
    fix thr :: "db_op \<Rightarrow> bool" and s0 :: db and D o1 o2 o3 o4 :: int
      and t1 q1 a1 t2 q2 a2 t3 q3 a3 t4 q4 a4 :: string
    assume h: "(\<forall>op. \<not> thr op) \<and> db_users s0 uid = Some new_stats \<and>
      resolve_question subjects t1 q1 \<noteq> None \<and> resolve_question subjects t2 q2 \<noteq> None \<and>
      resolve_question subjects t3 q3 \<noteq> None \<and> resolve_question subjects t4 q4 \<noteq> None \<and>
      0 < D \<and> 0 \<le> o1 \<and> o1 < msPerDay \<and> 0 \<le> o2 \<and> o2 < msPerDay \<and>
      0 \<le> o3 \<and> o3 < msPerDay \<and> 0 \<le> o4 \<and> o4 < msPerDay"
    show "map (map_option currentStreak) (stats_of_submissions subjects utc_midnight thr uid
                [(D * msPerDay + o1, t1, q1, a1), (D * msPerDay + o2, t2, q2, a2),
                 ((D + 1) * msPerDay + o3, t3, q3, a3), ((D + 3) * msPerDay + o4, t4, q4, a4)] s0)
                = [Some 1, Some 1, Some 2, Some 1] \<and>
              map (map_option longestStreak) (stats_of_submissions subjects utc_midnight thr uid
                [(D * msPerDay + o1, t1, q1, a1), (D * msPerDay + o2, t2, q2, a2),
                 ((D + 1) * msPerDay + o3, t3, q3, a3), ((D + 3) * msPerDay + o4, t4, q4, a4)] s0)
                = [Some 1, Some 1, Some 2, Some 2]"
      using h by (intro submissions_streak_days) simp_all
  qed
  show ?thesis
    apply (rule exI [of _ ?u])
    apply (intro conjI)
          apply (rule s')
         apply (rule r)
        apply (rule a)
       apply (rule b)
      apply (rule c(1))
     apply (rule c(2))
    apply (rule seq)
    done
qed

text \<open>The first submission of the sample user, evaluated.\<close>

lemma sample_Q2_success:
  "submit_answer sample_subjects utc_midnight no_throw sample_now 0 (Some ''T1'') (Some ''T1_Q2'') (Some ''b'') None sample_db =
     (Success \<lparr>res_isCorrect = True, res_correctAnswer = ''B'', res_mastery = 0.44,
               res_attempts = 1, res_corrects = 1,
               res_userStats = \<lparr>totalAttempts = 1, totalCorrect = 1, currentStreak = 1,
                 longestStreak = 1, lastStudyDate = Some sample_now\<rparr>\<rparr>,
      \<lparr>db_attempts = [\<lparr>userId = 0, topicId = ''T1'', questionId = ''T1_Q2'', userAnswer = ''b'',
                       correctAnswer = ''B'', isCorrect = True, timeTaken = None,
                       timestamp = sample_now\<rparr>],
       db_progress = [(0, ''T1'') \<mapsto> \<lparr>subjectName = ''Math'', topicTitle = ''Algebra'',
                       mastery = 0.44, attempts = 1, corrects = 1, lastReview = Some sample_now,
                       emaAlpha = 0.3\<rparr>],
       db_users = [0 \<mapsto> \<lparr>totalAttempts = 1, totalCorrect = 1, currentStreak = 1,
                 longestStreak = 1, lastStudyDate = Some sample_now\<rparr>]\<rparr>)"
proof -
  have c: "answers_match ''b'' ''B''" by code_simp
  show ?thesis
    by (simp add: submit_answer_def record_answer_def sample_resolve_Q2 c no_throw_def Let_def sample_db_def
        prior_progress_def Progress_create_def update_progress_def newMastery_def
        update_streak_def update_totals_def new_stats_def)
qed

lemma sample_resolve_Q3:
  "resolve_question sample_subjects ''T1'' ''T1_Q3'' = Some (''a'', ''Algebra'', ''Math'')"
  by code_simp

lemma sample_resolve_Q1:
  "resolve_question sample_subjects ''T1'' ''T1_Q1'' = Some (''a '', ''Algebra'', ''Math'')"
  by code_simp

theorem streak_update_policy_witness:
  "(\<exists>u'. db_users (snd (submit_answer sample_subjects utc_midnight no_throw sample_now 0
                  (Some ''T1'') (Some ''T1_Q2'') (Some ''b'') None sample_db)) 0 = Some u' \<and>
          currentStreak u' = 1 \<and> longestStreak u' = 1 \<and> lastStudyDate u' = Some sample_now) \<and>
   map (map_option currentStreak) (stats_of_submissions sample_subjects utc_midnight no_throw 0
     [(20000 * msPerDay + 1000, ''T1'', ''T1_Q2'', ''b''),
      (20000 * msPerDay + 5000, ''T1'', ''T1_Q1'', ''A''),
      ((20000 + 1) * msPerDay + 0, ''T1'', ''T1_Q3'', ''a''),
      ((20000 + 3) * msPerDay + 7, ''T1'', ''T1_Q2'', ''c'')] sample_db)
     = [Some 1, Some 1, Some 2, Some 1] \<and>
   map (map_option longestStreak) (stats_of_submissions sample_subjects utc_midnight no_throw 0
     [(20000 * msPerDay + 1000, ''T1'', ''T1_Q2'', ''b''),
      (20000 * msPerDay + 5000, ''T1'', ''T1_Q1'', ''A''),
      ((20000 + 1) * msPerDay + 0, ''T1'', ''T1_Q3'', ''a''),
      ((20000 + 3) * msPerDay + 7, ''T1'', ''T1_Q2'', ''c'')] sample_db)
     = [Some 1, Some 1, Some 2, Some 2]"
proof -
  have u: "db_users sample_db 0 = Some new_stats" by (simp add: sample_db_def)
  note T = streak_update_policy [OF _ u, of sample_subjects utc_midnight no_throw sample_now
      "Some ''T1''" "Some ''T1_Q2''" "Some ''b''" None, unfolded sample_Q2_success, OF refl]
  then obtain u' where
    a: "db_users (snd (submit_answer sample_subjects utc_midnight no_throw sample_now 0
                  (Some ''T1'') (Some ''T1_Q2'') (Some ''b'') None sample_db)) 0 = Some u'"
    and b: "lastStudyDate new_stats = None \<longrightarrow> currentStreak u' = 1"
    and c: "longestStreak u' = max (longestStreak new_stats) (currentStreak u')"
    and d: "lastStudyDate u' = Some sample_now"
    and e: "(\<forall>thr s0 D o1 o2 o3 o4 t1 q1 a1 t2 q2 a2 t3 q3 a3 t4 q4 a4.
      (\<forall>op. \<not> thr op) \<and> db_users s0 0 = Some new_stats \<and>
      resolve_question sample_subjects t1 q1 \<noteq> None \<and> resolve_question sample_subjects t2 q2 \<noteq> None \<and>
      resolve_question sample_subjects t3 q3 \<noteq> None \<and> resolve_question sample_subjects t4 q4 \<noteq> None \<and>
      0 < D \<and> 0 \<le> o1 \<and> o1 < msPerDay \<and> 0 \<le> o2 \<and> o2 < msPerDay \<and>
      0 \<le> o3 \<and> o3 < msPerDay \<and> 0 \<le> o4 \<and> o4 < msPerDay \<longrightarrow>
      map (map_option currentStreak) (stats_of_submissions sample_subjects utc_midnight thr 0
        [(D * msPerDay + o1, t1, q1, a1), (D * msPerDay + o2, t2, q2, a2),
         ((D + 1) * msPerDay + o3, t3, q3, a3), ((D + 3) * msPerDay + o4, t4, q4, a4)] s0)
        = [Some 1, Some 1, Some 2, Some 1] \<and>
      map (map_option longestStreak) (stats_of_submissions sample_subjects utc_midnight thr 0
        [(D * msPerDay + o1, t1, q1, a1), (D * msPerDay + o2, t2, q2, a2),
         ((D + 1) * msPerDay + o3, t3, q3, a3), ((D + 3) * msPerDay + o4, t4, q4, a4)] s0)
        = [Some 1, Some 1, Some 2, Some 2])"
    unfolding sample_Q2_success by auto
  have f: "currentStreak u' = 1 \<and> longestStreak u' = 1"
    using b c by (simp add: new_stats_def)
  have g: "(\<forall>op. \<not> no_throw op) \<and> db_users sample_db 0 = Some new_stats \<and>
      resolve_question sample_subjects ''T1'' ''T1_Q2'' \<noteq> None \<and>
      resolve_question sample_subjects ''T1'' ''T1_Q1'' \<noteq> None \<and>
      resolve_question sample_subjects ''T1'' ''T1_Q3'' \<noteq> None \<and>
      resolve_question sample_subjects ''T1'' ''T1_Q2'' \<noteq> None \<and>
      (0::int) < 20000 \<and> (0::int) \<le> 1000 \<and> 1000 < msPerDay \<and> (0::int) \<le> 5000 \<and> 5000 < msPerDay \<and>
      (0::int) \<le> 0 \<and> 0 < msPerDay \<and> (0::int) \<le> 7 \<and> 7 < msPerDay"
    by (simp add: msPerDay_def no_throw_def u sample_resolve_Q1 sample_resolve_Q2 sample_resolve_Q3)
  from e [rule_format, OF g, of "''b''" "''A''" "''a''" "''c''"] a d f show ?thesis by blast
qed


subsection \<open>Deciding correctness\<close>






subsection \<open>Counters\<close>




subsection \<open>Requests that fail\<close>

text \<open>
  Questions that do not resolve. When the question bank loads and the topic id matches
  no topic, or the question id is a string that gives no index (\<^verbatim>\<open>NaN\<close>) or an index
  outside the topic's questions, or the question's stored answer is the empty string, the
  response is the 404 \<^verbatim>\<open>Question not found\<close> and the database is unchanged. When the topic
  matches and the question id is absent or not a string, the response is the 500 and the
  database is unchanged.
\<close>

theorem unresolved_question_response:
  assumes "\<not> throws LoadSubjects"
  shows "(tidO = None \<or> (\<exists>tid. tidO = Some tid \<and> find_topic subjects tid = None) \<longrightarrow>
            submit_answer subjects mid throws now uid tidO qidO uaO tt s = (QuestionNotFound, s)) \<and>
         (\<forall>tid sb t qid.
            tidO = Some tid \<and> find_topic subjects tid = Some (sb, t) \<and> qidO = Some qid \<and>
            (qIndex qid = None \<or>
             (\<exists>k. qIndex qid = Some k \<and> (k < 0 \<or> int (length (questions t)) \<le> k)) \<or>
             (\<exists>k. qIndex qid = Some k \<and> 0 \<le> k \<and> k < int (length (questions t)) \<and>
                  answer (questions t ! nat k) = [])) \<longrightarrow>
            submit_answer subjects mid throws now uid tidO qidO uaO tt s = (QuestionNotFound, s)) \<and>
         (\<forall>tid. tidO = Some tid \<and> find_topic subjects tid \<noteq> None \<and> qidO = None \<longrightarrow>
            submit_answer subjects mid throws now uid tidO qidO uaO tt s = (ServerError, s))"
proof -
  have 1: "tidO = None \<or> (\<exists>tid. tidO = Some tid \<and> find_topic subjects tid = None) \<longrightarrow>
            submit_answer subjects mid throws now uid tidO qidO uaO tt s = (QuestionNotFound, s)"
    using assms
    by (auto simp: submit_answer_def resolve_question_def split: option.splits)
  have 2: "\<forall>tid sb t qid.
            tidO = Some tid \<and> find_topic subjects tid = Some (sb, t) \<and> qidO = Some qid \<and>
            (qIndex qid = None \<or>
             (\<exists>k. qIndex qid = Some k \<and> (k < 0 \<or> int (length (questions t)) \<le> k)) \<or>
             (\<exists>k. qIndex qid = Some k \<and> 0 \<le> k \<and> k < int (length (questions t)) \<and>
                  answer (questions t ! nat k) = [])) \<longrightarrow>
            submit_answer subjects mid throws now uid tidO qidO uaO tt s = (QuestionNotFound, s)"
  proof (intro allI impI)
    fix tid sb t qid
    assume h: "tidO = Some tid \<and> find_topic subjects tid = Some (sb, t) \<and> qidO = Some qid \<and>
            (qIndex qid = None \<or>
             (\<exists>k. qIndex qid = Some k \<and> (k < 0 \<or> int (length (questions t)) \<le> k)) \<or>
             (\<exists>k. qIndex qid = Some k \<and> 0 \<le> k \<and> k < int (length (questions t)) \<and>
                  answer (questions t ! nat k) = []))"
    then have "resolve_question subjects tid qid = None"
      by (auto simp: resolve_question_def answer_at_def)
    with h assms show "submit_answer subjects mid throws now uid tidO qidO uaO tt s = (QuestionNotFound, s)"
      by (simp add: submit_answer_def)
  qed
  have 3: "\<forall>tid. tidO = Some tid \<and> find_topic subjects tid \<noteq> None \<and> qidO = None \<longrightarrow>
            submit_answer subjects mid throws now uid tidO qidO uaO tt s = (ServerError, s)"
    using assms by (auto simp: submit_answer_def)
  from 1 2 3 show ?thesis by blast
qed

lemma sample_find_T1:
  "find_topic sample_subjects ''T1'' =
     Some (\<lparr>subject_name = ''Math'',
       topics =
         [\<lparr>topic_id = ''T1'', title = ''Algebra'',
           questions = [\<lparr>answer = ''a ''\<rparr>, \<lparr>answer = ''B''\<rparr>, \<lparr>answer = ''a''\<rparr>, \<lparr>answer = []\<rparr>]\<rparr>,
          \<lparr>topic_id = ''T2'', title = ''Geometry'', questions = [\<lparr>answer = ''C''\<rparr>]\<rparr>]\<rparr>,
       \<lparr>topic_id = ''T1'', title = ''Algebra'',
           questions = [\<lparr>answer = ''a ''\<rparr>, \<lparr>answer = ''B''\<rparr>, \<lparr>answer = ''a''\<rparr>, \<lparr>answer = []\<rparr>]\<rparr>)"
  by (simp add: sample_subjects_def)

lemma qIndex_samples:
  "qIndex ''T1_Qabc'' = None" "qIndex ''T1'' = None" "qIndex ''T1_Q9'' = Some 8"
  "qIndex ''T1_Q0'' = Some (- 1)" "qIndex ''T1_Q4'' = Some 3"
  by code_simp+

theorem unresolved_question_response_witness:
  "submit_answer sample_subjects utc_midnight no_throw sample_now 0
      (Some ''T9'') (Some ''T9_Q1'') (Some ''A'') None sample_db = (QuestionNotFound, sample_db) \<and>
   submit_answer sample_subjects utc_midnight no_throw sample_now 0
      (Some ''T1'') (Some ''T1_Qabc'') (Some ''A'') None sample_db = (QuestionNotFound, sample_db) \<and>
   submit_answer sample_subjects utc_midnight no_throw sample_now 0
      (Some ''T1'') (Some ''T1_Q9'') (Some ''A'') None sample_db = (QuestionNotFound, sample_db) \<and>
   submit_answer sample_subjects utc_midnight no_throw sample_now 0
      (Some ''T1'') (Some ''T1_Q0'') (Some ''A'') None sample_db = (QuestionNotFound, sample_db) \<and>
   submit_answer sample_subjects utc_midnight no_throw sample_now 0
      (Some ''T1'') (Some ''T1_Q4'') (Some ''A'') None sample_db = (QuestionNotFound, sample_db) \<and>
   submit_answer sample_subjects utc_midnight no_throw sample_now 0
      (Some ''T1'') None (Some ''A'') None sample_db = (ServerError, sample_db)"
proof -
  have n: "\<not> no_throw LoadSubjects" by (simp add: no_throw_def)
  have t9: "find_topic sample_subjects ''T9'' = None" by (simp add: sample_subjects_def)
  note T = unresolved_question_response [of no_throw _ sample_subjects utc_midnight sample_now 0 _
      "Some ''A''" None sample_db, OF n]
  have 1: "submit_answer sample_subjects utc_midnight no_throw sample_now 0
      (Some ''T9'') (Some ''T9_Q1'') (Some ''A'') None sample_db = (QuestionNotFound, sample_db)"
    using T [of "Some ''T9''" "Some ''T9_Q1''"] t9 by simp
  have 2: "submit_answer sample_subjects utc_midnight no_throw sample_now 0
      (Some ''T1'') (Some ''T1_Qabc'') (Some ''A'') None sample_db = (QuestionNotFound, sample_db)"
    using T [of "Some ''T1''" "Some ''T1_Qabc''"] by (simp add: sample_find_T1 qIndex_samples)
  have 3: "submit_answer sample_subjects utc_midnight no_throw sample_now 0
      (Some ''T1'') (Some ''T1_Q9'') (Some ''A'') None sample_db = (QuestionNotFound, sample_db)"
    using T [of "Some ''T1''" "Some ''T1_Q9''"] by (simp add: sample_find_T1 qIndex_samples)
  have 4: "submit_answer sample_subjects utc_midnight no_throw sample_now 0
      (Some ''T1'') (Some ''T1_Q0'') (Some ''A'') None sample_db = (QuestionNotFound, sample_db)"
    using T [of "Some ''T1''" "Some ''T1_Q0''"] by (simp add: sample_find_T1 qIndex_samples)
  have 5: "submit_answer sample_subjects utc_midnight no_throw sample_now 0
      (Some ''T1'') (Some ''T1_Q4'') (Some ''A'') None sample_db = (QuestionNotFound, sample_db)"
    using T [of "Some ''T1''" "Some ''T1_Q4''"] by (simp add: sample_find_T1 qIndex_samples)
  have 6: "submit_answer sample_subjects utc_midnight no_throw sample_now 0
      (Some ''T1'') None (Some ''A'') None sample_db = (ServerError, sample_db)"
    using T [of "Some ''T1''" None] by (simp add: sample_find_T1)
  from 1 2 3 4 5 6 show ?thesis by blast
qed

text \<open>
  Claim C10 says that a submission whose \<^verbatim>\<open>questionId\<close> encodes no question of the matched
  topic is answered with the 404. For a request without a \<^verbatim>\<open>questionId\<close> on a topic of the
  bank the handler does not: \<^verbatim>\<open>questionId.split\<close> throws before the test of
  \<^verbatim>\<open>correctAnswer\<close>, and the response is the 500. The database is unchanged.
\<close>

theorem missing_questionId_is_500:
  "submit_answer sample_subjects utc_midnight no_throw sample_now 0
      (Some ''T1'') None (Some ''A'') None sample_db = (ServerError, sample_db)"
  by (simp add: submit_answer_def no_throw_def sample_find_T1)




section \<open>Properties of the recommendations\<close>

subsection \<open>Sorting and cutting\<close>

lemma slice0_take: "\<exists>m. slice0 xs e = take m xs"
proof (cases e)
  case None
  then have "slice0 xs e = take 0 xs" by (simp add: slice0_def)
  then show ?thesis by blast
next
  case (Some k)
  then show ?thesis by (auto simp: slice0_def)
qed

lemma sorted_sort_scores: "sorted (map (\<lambda>e. - score e) (sort_scores xs))"
  by (simp add: sort_scores_def)

lemma set_sort_scores: "set (sort_scores xs) = set xs"
  by (simp add: sort_scores_def)

lemma sorted_take_scores: "sorted (map (\<lambda>e. - score e) (take m (sort_scores xs)))"
proof -
  have "map (\<lambda>e. - score e) (take m (sort_scores xs)) = take m (map (\<lambda>e. - score e) (sort_scores xs))"
    by (simp add: take_map)
  then show ?thesis using sorted_sort_scores [of xs] by (simp add: sorted_wrt_take)
qed

lemma sorted_scores_index:
  assumes "sorted (map (\<lambda>e. - score e) R)" "i < length R" "j < length R"
    and "score (R ! j) < score (R ! i)"
  shows "i < j"
proof (rule ccontr)
  assume "\<not> i < j"
  then have ji: "j \<le> i" by simp
  have il: "i < length (map (\<lambda>e. - score e) R)" using assms(2) by simp
  from sorted_nth_mono [OF assms(1) ji il]
  have "- score (R ! j) \<le> - score (R ! i)" using assms(2,3) by simp
  with assms(4) show False by simp
qed

lemma sorted_scores_desc:
  assumes "sorted (map (\<lambda>e. - score e) R)" "i \<le> j" "j < length R"
  shows "score (R ! j) \<le> score (R ! i)"
proof -
  have jl: "j < length (map (\<lambda>e. - score e) R)" using assms(3) by simp
  from sorted_nth_mono [OF assms(1,2) jl]
  have "- score (R ! i) \<le> - score (R ! j)" using assms(2,3) by simp
  then show ?thesis by simp
qed

subsection \<open>The score of a topic\<close>

lemma strugglingBonus_cong:
  assumes "map isCorrect xs = map isCorrect ys"
  shows "strugglingBonus xs = strugglingBonus ys"
proof -
  have l: "length xs = length ys" using assms by (rule map_eq_imp_length_eq)
  have f: "\<And>zs. length (filter isCorrect zs) = length (filter (\<lambda>b. b) (map isCorrect zs))"
    by (simp add: filter_map comp_def)
  have "take 5 (map isCorrect xs) = take 5 (map isCorrect ys)"
    using assms by simp
  then have "map isCorrect (take 5 xs) = map isCorrect (take 5 ys)"
    by (simp add: take_map)
  then have c: "recentCorrect xs = recentCorrect ys"
    unfolding recentCorrect_def f by simp
  show ?thesis by (simp add: strugglingBonus_def recentTotal_def l c)
qed

lemma recencyFactor_le_2: "recencyFactor d \<le> 2"
  by (simp add: recencyFactor_def)

lemma recencyFactor_ge_1: "0 \<le> d \<Longrightarrow> 1 \<le> recencyFactor d"
  by (simp add: recencyFactor_def)

lemma recommendations_take:
  "\<exists>m. recommendations subjects now uid n s =
     take m (sort_scores (map (topic_score now (\<lambda>tid. db_progress s (uid, tid)) (recentAttempts uid s))
                            (getAllTopicIds subjects)))"
  unfolding recommendations_def Let_def by (rule slice0_take)


lemma topic_score_fields:
  "score (topic_score now pm recent t) =
     (1 - (case pm (info_topicId t) of None \<Rightarrow> 0.2 | Some p \<Rightarrow> mastery p)) *
       recencyFactor (daysSince now (case pm (info_topicId t) of None \<Rightarrow> None | Some p \<Rightarrow> lastReview p)) +
     strugglingBonus (filter (\<lambda>a. topicId a = info_topicId t) recent)"
  "rec_mastery (topic_score now pm recent t) =
     (case pm (info_topicId t) of None \<Rightarrow> 0.2 | Some p \<Rightarrow> mastery p)"
  "rec_topicId (topic_score now pm recent t) = info_topicId t"
  by (simp_all add: topic_score_def Let_def)

lemma strugglingBonus_recent5:
  "strugglingBonus xs =
     (if take 5 xs \<noteq> [] \<and>
         real (length (filter isCorrect (take 5 xs))) / real (length (take 5 xs)) < 0.4
      then 0.3 else 0)"
proof -
  have "recentTotal xs = length (take 5 xs)" by (simp add: recentTotal_def)
  moreover have "(0 < length (take 5 xs)) = (take 5 xs \<noteq> [])" by blast
  ultimately show ?thesis by (simp only: strugglingBonus_def recentCorrect_def)
qed

lemma recommendations_subset:
  "set (recommendations subjects now uid n s) \<subseteq>
     topic_score now (\<lambda>tid. db_progress s (uid, tid)) (recentAttempts uid s) ` set (getAllTopicIds subjects)"
proof -
  obtain m where "recommendations subjects now uid n s =
     take m (sort_scores (map (topic_score now (\<lambda>tid. db_progress s (uid, tid)) (recentAttempts uid s))
                            (getAllTopicIds subjects)))"
    using recommendations_take by blast
  then show ?thesis
    using set_take_subset [of m "sort_scores (map (topic_score now (\<lambda>tid. db_progress s (uid, tid))
        (recentAttempts uid s)) (getAllTopicIds subjects))"]
    by (simp add: set_sort_scores)
qed

lemma recentAttempts_props:
  "length (recentAttempts uid s) \<le> 100"
  "\<forall>a \<in> set (recentAttempts uid s). a \<in> set (db_attempts s) \<and> userId a = uid"
  "sorted (map (\<lambda>a. - timestamp a) (recentAttempts uid s))"
proof -
  show "length (recentAttempts uid s) \<le> 100" by (simp add: recentAttempts_def)
  show "\<forall>a \<in> set (recentAttempts uid s). a \<in> set (db_attempts s) \<and> userId a = uid"
    unfolding recentAttempts_def by (auto dest!: in_set_takeD)
  have "map (\<lambda>a. - timestamp a) (recentAttempts uid s) =
      take 100 (map (\<lambda>a. - timestamp a) (sort_key (\<lambda>a. - timestamp a) (filter (\<lambda>a. userId a = uid) (db_attempts s))))"
    by (simp add: recentAttempts_def take_map)
  then show "sorted (map (\<lambda>a. - timestamp a) (recentAttempts uid s))"
    by (simp add: sorted_wrt_take)
qed

text \<open>
  Claim C3, as amended. The score of a topic is
  \<open>(1 - mastery) * (1 + 0.5 * min (daysSince / 30) 2) + strugglingBonus\<close>, where \<open>mastery\<close> is
  the mastery of the user's progress document for the topic, or 0.2 when there is none;
  \<open>daysSince\<close> is 999 when there is no document or its \<^verbatim>\<open>lastReview\<close> is \<^verbatim>\<open>null\<close>, and else the
  time since \<^verbatim>\<open>lastReview\<close> in days. The recency factor is at most 2, it is at least 1 when
  \<open>daysSince\<close> is not negative, and it is 2 for the sentinel. The bonus is 0.3 exactly when
  the latest five (or fewer) attempts on the topic among the user's latest 100 attempts
  are not empty and their correct rate is below 0.4, and else 0: 2 correct of 5 give no
  bonus and 1 of 5 gives 0.3. Every entry of the response is the entry of a topic of the
  bank.
\<close>

theorem recommendation_score:
  "(let prog = db_progress s (uid, info_topicId t);
        m = (case prog of None \<Rightarrow> 0.2 | Some p \<Rightarrow> mastery p);
        d = (case prog of
               None \<Rightarrow> 999
             | Some p \<Rightarrow>
                 (case lastReview p of
                    None \<Rightarrow> 999
                  | Some lr \<Rightarrow> real_of_int (now - lr) / 86400000));
        factor = 1 + 0.5 * min (d / 30) 2;
        recent5 = take 5 (filter (\<lambda>a. topicId a = info_topicId t) (recentAttempts uid s));
        rate = real (length (filter isCorrect recent5)) / real (length recent5);
        bonus = (if recent5 \<noteq> [] \<and> rate < 0.4 then 0.3 else 0);
        e = topic_score now (\<lambda>tid. db_progress s (uid, tid)) (recentAttempts uid s) t
    in score e = (1 - m) * factor + bonus \<and> rec_mastery e = m \<and>
       factor \<le> 2 \<and> (0 \<le> d \<longrightarrow> 1 \<le> factor) \<and> (d = 999 \<longrightarrow> factor = 2)) \<and>
   set (recommendations subjects now uid n s) \<subseteq>
     topic_score now (\<lambda>tid. db_progress s (uid, tid)) (recentAttempts uid s) `
       set (getAllTopicIds subjects) \<and>
   length (recentAttempts uid s) \<le> 100 \<and>
   (\<forall>a \<in> set (recentAttempts uid s). a \<in> set (db_attempts s) \<and> userId a = uid) \<and>
   sorted (map (\<lambda>a. - timestamp a) (recentAttempts uid s)) \<and>
   (\<forall>as. recentTotal as = 5 \<and> recentCorrect as = 2 \<longrightarrow> strugglingBonus as = 0) \<and>
   (\<forall>as. recentTotal as = 5 \<and> recentCorrect as = 1 \<longrightarrow> strugglingBonus as = 0.3)"
proof -
  let ?prog = "db_progress s (uid, info_topicId t)"
  let ?d = "case ?prog of
               None \<Rightarrow> 999
             | Some p \<Rightarrow>
                 (case lastReview p of
                    None \<Rightarrow> 999
                  | Some lr \<Rightarrow> real_of_int (now - lr) / 86400000)"
  have d: "daysSince now (case ?prog of None \<Rightarrow> None | Some p \<Rightarrow> lastReview p) = ?d"
    by (simp add: daysSince_def msPerDay_def split: option.splits)
  have f: "1 + 0.5 * min (?d / 30) 2 = recencyFactor ?d"
    by (simp add: recencyFactor_def)
  have sc: "score (topic_score now (\<lambda>tid. db_progress s (uid, tid)) (recentAttempts uid s) t) =
     (1 - (case ?prog of None \<Rightarrow> 0.2 | Some p \<Rightarrow> mastery p)) * recencyFactor ?d +
     strugglingBonus (filter (\<lambda>a. topicId a = info_topicId t) (recentAttempts uid s))"
    by (simp only: topic_score_fields d)
  have n: "recencyFactor 999 = 2" by (simp add: recencyFactor_def)
  have 1: "let prog = ?prog;
        m = (case prog of None \<Rightarrow> 0.2 | Some p \<Rightarrow> mastery p);
        d = (case prog of
               None \<Rightarrow> 999
             | Some p \<Rightarrow>
                 (case lastReview p of
                    None \<Rightarrow> 999
                  | Some lr \<Rightarrow> real_of_int (now - lr) / 86400000));
        factor = 1 + 0.5 * min (d / 30) 2;
        recent5 = take 5 (filter (\<lambda>a. topicId a = info_topicId t) (recentAttempts uid s));
        rate = real (length (filter isCorrect recent5)) / real (length recent5);
        bonus = (if recent5 \<noteq> [] \<and> rate < 0.4 then 0.3 else 0);
        e = topic_score now (\<lambda>tid. db_progress s (uid, tid)) (recentAttempts uid s) t
    in score e = (1 - m) * factor + bonus \<and> rec_mastery e = m \<and>
       factor \<le> 2 \<and> (0 \<le> d \<longrightarrow> 1 \<le> factor) \<and> (d = 999 \<longrightarrow> factor = 2)"
    unfolding Let_def f sc
    using recencyFactor_le_2 [of ?d] recencyFactor_ge_1 [of ?d] n
    by (simp add: topic_score_fields(2) strugglingBonus_recent5)
  have 2: "\<forall>as. recentTotal as = 5 \<and> recentCorrect as = 2 \<longrightarrow> strugglingBonus as = 0"
    by (simp add: strugglingBonus_def)
  have 3: "\<forall>as. recentTotal as = 5 \<and> recentCorrect as = 1 \<longrightarrow> strugglingBonus as = 0.3"
    by (simp add: strugglingBonus_def)
  from 1 2 3 recommendations_subset [of subjects now uid n s] recentAttempts_props [of uid s]
  show ?thesis by blast
qed


lemma sample_topics:
  "getAllTopicIds sample_subjects =
     [info_T1, info_T2, info_T3]"
  by (simp add: getAllTopicIds_def sample_subjects_def info_T1_def info_T2_def info_T3_def)

lemma parseInt_samples:
  "parseInt (Some ''3'') = Some 3" "parseInt (Some ''-1'') = Some (- 1)"
  "parseInt (Some ''2'') = Some 2" "parseInt (Some ''abc'') = None"
  by code_simp+

lemma strugglingBonus_Nil: "strugglingBonus [] = 0"
  by (simp add: strugglingBonus_def recentTotal_def)

lemma review_recent:
  "recentAttempts 0 review_db =
     [sample_attempt ''T1'' False 5000, sample_attempt ''T1'' False 4000,
      sample_attempt ''T1'' False 3000, sample_attempt ''T2'' True 2500,
      sample_attempt ''T1'' False 2000, sample_attempt ''T1'' True 1000]"
  by (simp add: recentAttempts_def review_db_def sample_attempt_def)

theorem recommendation_score_witness:
  "score (topic_score sample_now (\<lambda>tid. db_progress review_db (0, tid)) (recentAttempts 0 review_db)
      info_T1) = (1 - 0.5) * (1 + 0.5 * min (3 / 30) 2) + 0.3 \<and>
   strugglingBonus
     [sample_attempt ''T1'' False 5, sample_attempt ''T1'' False 4, sample_attempt ''T1'' False 3,
      sample_attempt ''T1'' True 2, sample_attempt ''T1'' True 1] = 0 \<and>
   strugglingBonus
     [sample_attempt ''T1'' False 5, sample_attempt ''T1'' False 4, sample_attempt ''T1'' False 3,
      sample_attempt ''T1'' False 2, sample_attempt ''T1'' True 1] = 0.3"
proof -
  have p: "db_progress review_db (0, info_topicId info_T1) =
      Some \<lparr>subjectName = ''Math'', topicTitle = ''Algebra'', mastery = 0.5,
            attempts = 5, corrects = 1, lastReview = Some (sample_now - 3 * msPerDay),
            emaAlpha = 0.3\<rparr>"
    by (simp add: review_db_def info_T1_def)
  have r: "take 5 (filter (\<lambda>a. topicId a = info_topicId info_T1) (recentAttempts 0 review_db)) =
     [sample_attempt ''T1'' False 5000, sample_attempt ''T1'' False 4000,
      sample_attempt ''T1'' False 3000, sample_attempt ''T1'' False 2000,
      sample_attempt ''T1'' True 1000]"
    by (simp add: review_recent info_T1_def sample_attempt_def)
  have c2: "recentTotal [sample_attempt ''T1'' False 5, sample_attempt ''T1'' False 4,
      sample_attempt ''T1'' False 3, sample_attempt ''T1'' True 2, sample_attempt ''T1'' True 1] = 5 \<and>
     recentCorrect [sample_attempt ''T1'' False 5, sample_attempt ''T1'' False 4,
      sample_attempt ''T1'' False 3, sample_attempt ''T1'' True 2, sample_attempt ''T1'' True 1] = 2"
    by (simp add: recentTotal_def recentCorrect_def sample_attempt_def)
  have c1: "recentTotal [sample_attempt ''T1'' False 5, sample_attempt ''T1'' False 4,
      sample_attempt ''T1'' False 3, sample_attempt ''T1'' False 2, sample_attempt ''T1'' True 1] = 5 \<and>
     recentCorrect [sample_attempt ''T1'' False 5, sample_attempt ''T1'' False 4,
      sample_attempt ''T1'' False 3, sample_attempt ''T1'' False 2, sample_attempt ''T1'' True 1] = 1"
    by (simp add: recentTotal_def recentCorrect_def sample_attempt_def)
  note T = recommendation_score [of review_db 0 info_T1 sample_now sample_subjects None]
  have s: "score (topic_score sample_now (\<lambda>tid. db_progress review_db (0, tid)) (recentAttempts 0 review_db)
      info_T1) = (1 - 0.5) * (1 + 0.5 * min (3 / 30) 2) + 0.3"
    using T unfolding Let_def p r by (simp add: sample_attempt_def msPerDay_def)
  from T c1 c2 s show ?thesis by blast
qed

text \<open>
  Claim C3 as stated fails for a \<^verbatim>\<open>lastReview\<close> later than the clock of the request:
  \<open>daysSince\<close> is negative, the recency factor is below 1, and the score of the topic
  with mastery 0.5 is below \<open>(1 - 0.5) * 1\<close>.
\<close>

theorem future_review_counterexample:
  "db_progress skew_db (0, ''T1'') =
      Some \<lparr>subjectName = ''Math'', topicTitle = ''Algebra'', mastery = 0.5,
            attempts = 5, corrects = 1, lastReview = Some (sample_now + msPerDay),
            emaAlpha = 0.3\<rparr> \<and>
   recencyFactor (daysSince sample_now (Some (sample_now + msPerDay))) < 1 \<and>
   map score (recommendations sample_subjects sample_now 0 None skew_db) = [8 / 5, 8 / 5, 59 / 120] \<and>
   map rec_topicId (recommendations sample_subjects sample_now 0 None skew_db) = [''T2'', ''T3'', ''T1'']"
proof -
  let ?pm = "\<lambda>tid. db_progress skew_db (0, tid)"
  have a: "recentAttempts 0 skew_db = []" by (simp add: recentAttempts_def skew_db_def)
  have p1: "?pm (info_topicId info_T1) =
      Some \<lparr>subjectName = ''Math'', topicTitle = ''Algebra'', mastery = 0.5,
            attempts = 5, corrects = 1, lastReview = Some (sample_now + msPerDay),
            emaAlpha = 0.3\<rparr>"
    by (simp add: skew_db_def info_T1_def)
  have p2: "?pm (info_topicId info_T2) = None" by (simp add: skew_db_def info_T2_def)
  have p3: "?pm (info_topicId info_T3) = None" by (simp add: skew_db_def info_T3_def)
  have f: "recencyFactor (daysSince sample_now (Some (sample_now + msPerDay))) = 59 / 60"
    by (simp add: recencyFactor_def daysSince_def msPerDay_def)
  have g: "recencyFactor (daysSince sample_now None) = 2"
    by (simp add: recencyFactor_def daysSince_def)
  have s1: "score (topic_score sample_now ?pm [] info_T1) = 59 / 120"
    by (simp add: topic_score_fields(1) p1 f strugglingBonus_Nil)
  have s2: "score (topic_score sample_now ?pm [] info_T2) = 8 / 5"
    by (simp add: topic_score_fields(1) p2 g strugglingBonus_Nil)
  have s3: "score (topic_score sample_now ?pm [] info_T3) = 8 / 5"
    by (simp add: topic_score_fields(1) p3 g strugglingBonus_Nil)
  have r: "recommendations sample_subjects sample_now 0 None skew_db =
      [topic_score sample_now ?pm [] info_T2, topic_score sample_now ?pm [] info_T3,
       topic_score sample_now ?pm [] info_T1]"
    by (simp add: recommendations_def Let_def sample_topics parseInt_samples a slice0_def
        sort_scores_def s1 s2 s3)
  have i: "info_topicId info_T1 = ''T1''" "info_topicId info_T2 = ''T2''" "info_topicId info_T3 = ''T3''"
    by (simp_all add: info_T1_def info_T2_def info_T3_def)
  have p: "db_progress skew_db (0, ''T1'') =
      Some \<lparr>subjectName = ''Math'', topicTitle = ''Algebra'', mastery = 0.5,
            attempts = 5, corrects = 1, lastReview = Some (sample_now + msPerDay),
            emaAlpha = 0.3\<rparr>"
    using p1 by (simp only: i)
  show ?thesis
    unfolding r using p by (simp add: s1 s2 s3 f topic_score_fields(3) i)
qed


subsection \<open>Ranking\<close>

lemma never_reviewed_score:
  assumes "case pm (info_topicId a) of None \<Rightarrow> True | Some p \<Rightarrow> lastReview p = None \<and> mastery p = 0.2"
  shows "score (topic_score now pm recent a) =
           8 / 5 + strugglingBonus (filter (\<lambda>x. topicId x = info_topicId a) recent)"
proof (cases "pm (info_topicId a)")
  case None
  then show ?thesis
    by (simp add: topic_score_fields(1) daysSince_def recencyFactor_def)
next
  case (Some p)
  with assms have l: "lastReview p = None" and m: "mastery p = 0.2" by simp_all
  show ?thesis
    by (simp add: topic_score_fields(1) Some l m daysSince_def recencyFactor_def)
qed

lemma reviewed_yesterday_score:
  assumes "pm (info_topicId b) = Some pb" "mastery pb = 0.2" "lastReview pb = Some (now - msPerDay)"
  shows "score (topic_score now pm recent b) =
           61 / 75 + strugglingBonus (filter (\<lambda>x. topicId x = info_topicId b) recent)"
  using assms
  by (simp add: topic_score_fields(1) daysSince_def recencyFactor_def msPerDay_def)

text \<open>
  Claim C8. Let two topics have mastery 0.2 and the same outcomes in the user's recent
  attempts, the first never reviewed (no progress document, or one whose \<^verbatim>\<open>lastReview\<close> is
  \<^verbatim>\<open>null\<close>) and the second reviewed one day ago. Then the first has the strictly higher
  score, it stands before the second wherever both are in the response, and it is in the
  response whenever the second is.
\<close>

theorem never_reviewed_outranks:
  assumes a_in: "a \<in> set (getAllTopicIds subjects)"
    and never: "case db_progress s (uid, info_topicId a) of
                  None \<Rightarrow> True
                | Some p \<Rightarrow> lastReview p = None \<and> mastery p = 0.2"
    and yest: "db_progress s (uid, info_topicId b) = Some pb" "mastery pb = 0.2"
              "lastReview pb = Some (now - msPerDay)"
    and hist: "map isCorrect (filter (\<lambda>x. topicId x = info_topicId a) (recentAttempts uid s)) =
               map isCorrect (filter (\<lambda>x. topicId x = info_topicId b) (recentAttempts uid s))"
  shows "let ea = topic_score now (\<lambda>tid. db_progress s (uid, tid)) (recentAttempts uid s) a;
             eb = topic_score now (\<lambda>tid. db_progress s (uid, tid)) (recentAttempts uid s) b;
             R = recommendations subjects now uid n s
         in score eb < score ea \<and>
            (\<forall>i j. i < length R \<and> j < length R \<and> R ! i = ea \<and> R ! j = eb \<longrightarrow> i < j) \<and>
            (eb \<in> set R \<longrightarrow> ea \<in> set R)"
proof -
  let ?f = "topic_score now (\<lambda>tid. db_progress s (uid, tid)) (recentAttempts uid s)"
  let ?S = "sort_scores (map ?f (getAllTopicIds subjects))"
  let ?R = "recommendations subjects now uid n s"
  obtain m where R: "?R = take m ?S" using recommendations_take by blast
  have bonus: "strugglingBonus (filter (\<lambda>x. topicId x = info_topicId a) (recentAttempts uid s)) =
      strugglingBonus (filter (\<lambda>x. topicId x = info_topicId b) (recentAttempts uid s))"
    using hist by (rule strugglingBonus_cong)
  have lt: "score (?f b) < score (?f a)"
    using never_reviewed_score [of "\<lambda>tid. db_progress s (uid, tid)" a now "recentAttempts uid s", OF never]
      reviewed_yesterday_score [of "\<lambda>tid. db_progress s (uid, tid)" b pb now "recentAttempts uid s", OF yest]
      bonus
    by simp
  have sR: "sorted (map (\<lambda>e. - score e) ?R)" unfolding R by (rule sorted_take_scores)
  have idx: "\<forall>i j. i < length ?R \<and> j < length ?R \<and> ?R ! i = ?f a \<and> ?R ! j = ?f b \<longrightarrow> i < j"
    using sorted_scores_index [OF sR] lt by auto
  have mem: "?f b \<in> set ?R \<longrightarrow> ?f a \<in> set ?R"
  proof
    assume "?f b \<in> set ?R"
    then obtain j where j: "j < length ?R" "?R ! j = ?f b" by (auto simp: in_set_conv_nth)
    then have jm: "j < m" "j < length ?S" and Sj: "?S ! j = ?f b" by (simp_all add: R)
    have "?f a \<in> set ?S" using a_in by (simp add: set_sort_scores)
    then obtain i where i: "i < length ?S" "?S ! i = ?f a" by (auto simp: in_set_conv_nth)
    have "i < j"
      using sorted_scores_index [OF sorted_sort_scores i(1) jm(2)] lt by (simp add: i(2) Sj)
    then have "i < length ?R" "?R ! i = ?f a" using jm i by (simp_all add: R)
    then show "?f a \<in> set ?R" by (metis nth_mem)
  qed
  show ?thesis unfolding Let_def using lt idx mem by blast
qed

lemma filter_take_prefix: "prefix (filter P (take m xs)) (filter P xs)"
proof -
  have "filter P xs = filter P (take m xs) @ filter P (drop m xs)"
    by (metis append_take_drop_id filter_append)
  then show ?thesis by (metis prefixI)
qed

lemma sort_scores_stable:
  "filter (\<lambda>e. score e = v) (sort_scores xs) = filter (\<lambda>e. score e = v) xs"
proof -
  have "filter (\<lambda>e. - score e = - v) (sort_key (\<lambda>e. - score e) xs) = filter (\<lambda>e. - score e = - v) xs"
    by (rule sort_key_stable)
  then show ?thesis by (simp add: sort_scores_def)
qed

text \<open>
  Claim C9, as amended. When \<^verbatim>\<open>parseInt\<close> reads the parameter \<open>n\<close> as an integer \<open>k \<ge> 0\<close>
  (3 when \<open>n\<close> is absent), the response has \<open>min k (number of topics)\<close> entries; for a
  negative \<open>k\<close> it has the number of topics less \<open>- k\<close> entries (none, when that is
  negative), and for an \<open>n\<close> that is not a number it has none. For every \<open>n\<close> the response
  is in non-increasing order of score, and the entries of any one score are in the order
  of the bank (they are a prefix of the bank's entries of that score).
\<close>

theorem recommendations_top_n:
  "let R = recommendations subjects now uid n s;
       scores = map (topic_score now (\<lambda>tid. db_progress s (uid, tid)) (recentAttempts uid s))
                  (getAllTopicIds subjects);
       parsed = parseInt (Some (case n of None \<Rightarrow> ''3'' | Some v \<Rightarrow> v))
   in (\<forall>k. parsed = Some k \<and> 0 \<le> k \<longrightarrow>
         length R = min (nat k) (length (getAllTopicIds subjects))) \<and>
      (n = None \<longrightarrow> length R = min 3 (length (getAllTopicIds subjects))) \<and>
      (\<forall>k. parsed = Some k \<and> k < 0 \<longrightarrow>
         length R = nat (int (length (getAllTopicIds subjects)) + k)) \<and>
      (parsed = None \<longrightarrow> R = []) \<and>
      (\<forall>i j. i \<le> j \<and> j < length R \<longrightarrow> score (R ! j) \<le> score (R ! i)) \<and>
      (\<forall>v. prefix (filter (\<lambda>e. score e = v) R) (filter (\<lambda>e. score e = v) scores))"
proof -
  let ?scores = "map (topic_score now (\<lambda>tid. db_progress s (uid, tid)) (recentAttempts uid s))
                        (getAllTopicIds subjects)"
  let ?R = "recommendations subjects now uid n s"
  let ?parsed = "parseInt (Some (case n of None \<Rightarrow> ''3'' | Some v \<Rightarrow> v))"
  have R: "?R = slice0 (sort_scores ?scores) ?parsed"
    by (simp add: recommendations_def Let_def)
  obtain m where Rm: "?R = take m (sort_scores ?scores)"
    using recommendations_take by blast
  have len: "\<forall>k. ?parsed = Some k \<and> 0 \<le> k \<longrightarrow>
         length ?R = min (nat k) (length (getAllTopicIds subjects))"
    by (auto simp: R slice0_def sort_scores_def)
  have dflt: "n = None \<longrightarrow> length ?R = min 3 (length (getAllTopicIds subjects))"
  proof
    assume "n = None"
    then have "?parsed = Some 3" by (simp add: parseInt_samples)
    with len have "length ?R = min (nat 3) (length (getAllTopicIds subjects))" by simp
    then show "length ?R = min 3 (length (getAllTopicIds subjects))" by simp
  qed
  have neg: "\<forall>k. ?parsed = Some k \<and> k < 0 \<longrightarrow>
         length ?R = nat (int (length (getAllTopicIds subjects)) + k)"
    by (auto simp: R slice0_def sort_scores_def)
  have nan: "?parsed = None \<longrightarrow> ?R = []"
    by (auto simp: R slice0_def)
  have sR: "sorted (map (\<lambda>e. - score e) ?R)" unfolding Rm by (rule sorted_take_scores)
  have desc: "\<forall>i j. i \<le> j \<and> j < length ?R \<longrightarrow> score (?R ! j) \<le> score (?R ! i)"
    using sorted_scores_desc [OF sR] by blast
  have "prefix (filter (\<lambda>e. score e = v) ?R) (filter (\<lambda>e. score e = v) (sort_scores ?scores))" for v
    unfolding Rm by (rule filter_take_prefix)
  then have stab: "\<forall>v. prefix (filter (\<lambda>e. score e = v) ?R) (filter (\<lambda>e. score e = v) ?scores)"
    by (simp only: sort_scores_stable) simp
  show ?thesis unfolding Let_def using len dflt neg nan desc stab by blast
qed

text \<open>The responses for the sample bank, evaluated for four values of \<open>n\<close>.\<close>

lemma yesterday_ranking:
  "map rec_topicId (recommendations sample_subjects sample_now 0 None yesterday_db) =
     [''T2'', ''T3'', ''T1'']"
  "map rec_topicId (recommendations sample_subjects sample_now 0 (Some ''2'') yesterday_db) =
     [''T2'', ''T3'']"
  "map rec_topicId (recommendations sample_subjects sample_now 0 (Some ''-1'') yesterday_db) =
     [''T2'', ''T3'']"
  "recommendations sample_subjects sample_now 0 (Some ''abc'') yesterday_db = []"
proof -
  let ?pm = "\<lambda>tid. db_progress yesterday_db (0, tid)"
  have a: "recentAttempts 0 yesterday_db = []" by (simp add: recentAttempts_def yesterday_db_def)
  have p1: "?pm (info_topicId info_T1) =
      Some \<lparr>subjectName = ''Math'', topicTitle = ''Algebra'', mastery = 0.2,
            attempts = 0, corrects = 0, lastReview = Some (sample_now - msPerDay),
            emaAlpha = 0.3\<rparr>"
    by (simp add: yesterday_db_def info_T1_def)
  have p2: "?pm (info_topicId info_T2) = None" by (simp add: yesterday_db_def info_T2_def)
  have p3: "?pm (info_topicId info_T3) = None" by (simp add: yesterday_db_def info_T3_def)
  have s1: "score (topic_score sample_now ?pm [] info_T1) = 61 / 75"
    using reviewed_yesterday_score [of ?pm info_T1 _ sample_now "[]", OF p1]
    by (simp add: strugglingBonus_Nil)
  have s2: "score (topic_score sample_now ?pm [] info_T2) = 8 / 5"
    using never_reviewed_score [of ?pm info_T2 sample_now "[]"] by (simp add: p2 strugglingBonus_Nil)
  have s3: "score (topic_score sample_now ?pm [] info_T3) = 8 / 5"
    using never_reviewed_score [of ?pm info_T3 sample_now "[]"] by (simp add: p3 strugglingBonus_Nil)
  have S: "sort_scores [topic_score sample_now ?pm [] info_T1, topic_score sample_now ?pm [] info_T2,
       topic_score sample_now ?pm [] info_T3] =
      [topic_score sample_now ?pm [] info_T2, topic_score sample_now ?pm [] info_T3,
       topic_score sample_now ?pm [] info_T1]"
    by (simp add: sort_scores_def s1 s2 s3)
  have i: "info_topicId info_T1 = ''T1''" "info_topicId info_T2 = ''T2''" "info_topicId info_T3 = ''T3''"
    by (simp_all add: info_T1_def info_T2_def info_T3_def)
  show "map rec_topicId (recommendations sample_subjects sample_now 0 None yesterday_db) =
     [''T2'', ''T3'', ''T1'']"
    by (simp add: recommendations_def Let_def sample_topics parseInt_samples a slice0_def S
        topic_score_fields(3) i)
  show "map rec_topicId (recommendations sample_subjects sample_now 0 (Some ''2'') yesterday_db) =
     [''T2'', ''T3'']"
    by (simp add: recommendations_def Let_def sample_topics parseInt_samples a slice0_def S
        topic_score_fields(3) i)
  show "map rec_topicId (recommendations sample_subjects sample_now 0 (Some ''-1'') yesterday_db) =
     [''T2'', ''T3'']"
    by (simp add: recommendations_def Let_def sample_topics parseInt_samples a slice0_def S
        topic_score_fields(3) i)
  show "recommendations sample_subjects sample_now 0 (Some ''abc'') yesterday_db = []"
    by (simp add: recommendations_def Let_def parseInt_samples slice0_def)
qed

theorem never_reviewed_outranks_witness:
  "score (topic_score sample_now (\<lambda>tid. db_progress yesterday_db (0, tid))
            (recentAttempts 0 yesterday_db) info_T1)
     < score (topic_score sample_now (\<lambda>tid. db_progress yesterday_db (0, tid))
            (recentAttempts 0 yesterday_db) info_T2) \<and>
   map rec_topicId (recommendations sample_subjects sample_now 0 None yesterday_db) =
     [''T2'', ''T3'', ''T1'']"
proof -
  have a: "info_T2 \<in> set (getAllTopicIds sample_subjects)" by (simp add: sample_topics)
  have n: "case db_progress yesterday_db (0, info_topicId info_T2) of
                  None \<Rightarrow> True
                | Some p \<Rightarrow> lastReview p = None \<and> mastery p = 0.2"
    by (simp add: yesterday_db_def info_T2_def)
  have y: "db_progress yesterday_db (0, info_topicId info_T1) =
      Some \<lparr>subjectName = ''Math'', topicTitle = ''Algebra'', mastery = 0.2,
            attempts = 0, corrects = 0, lastReview = Some (sample_now - msPerDay),
            emaAlpha = 0.3\<rparr>"
    by (simp add: yesterday_db_def info_T1_def)
  have h: "map isCorrect (filter (\<lambda>x. topicId x = info_topicId info_T2) (recentAttempts 0 yesterday_db)) =
           map isCorrect (filter (\<lambda>x. topicId x = info_topicId info_T1) (recentAttempts 0 yesterday_db))"
    by (simp add: recentAttempts_def yesterday_db_def)
  from never_reviewed_outranks [OF a n y _ _ h, of sample_now None]
  have "score (topic_score sample_now (\<lambda>tid. db_progress yesterday_db (0, tid))
            (recentAttempts 0 yesterday_db) info_T1)
     < score (topic_score sample_now (\<lambda>tid. db_progress yesterday_db (0, tid))
            (recentAttempts 0 yesterday_db) info_T2)"
    by (simp add: Let_def)
  with yesterday_ranking(1) show ?thesis by blast
qed

theorem recommendations_top_n_witness:
  "length (recommendations sample_subjects sample_now 0 (Some ''2'') yesterday_db) = 2 \<and>
   length (recommendations sample_subjects sample_now 0 None yesterday_db) = 3 \<and>
   length (recommendations sample_subjects sample_now 0 (Some ''-1'') yesterday_db) = 2 \<and>
   recommendations sample_subjects sample_now 0 (Some ''abc'') yesterday_db = [] \<and>
   map rec_topicId (recommendations sample_subjects sample_now 0 (Some ''2'') yesterday_db) =
     [''T2'', ''T3'']"
proof -
  from recommendations_top_n [of sample_subjects sample_now 0 "Some ''2''" yesterday_db]
  have 1: "length (recommendations sample_subjects sample_now 0 (Some ''2'') yesterday_db) = 2"
    by (simp add: Let_def sample_topics parseInt_samples)
  from recommendations_top_n [of sample_subjects sample_now 0 None yesterday_db]
  have 2: "length (recommendations sample_subjects sample_now 0 None yesterday_db) = 3"
    by (simp add: Let_def sample_topics parseInt_samples)
  from recommendations_top_n [of sample_subjects sample_now 0 "Some ''-1''" yesterday_db]
  have 3: "length (recommendations sample_subjects sample_now 0 (Some ''-1'') yesterday_db) = 2"
    by (simp add: Let_def sample_topics parseInt_samples)
  from recommendations_top_n [of sample_subjects sample_now 0 "Some ''abc''" yesterday_db]
  have 4: "recommendations sample_subjects sample_now 0 (Some ''abc'') yesterday_db = []"
    by (simp add: Let_def sample_topics parseInt_samples)
  from 1 2 3 4 yesterday_ranking(2) show ?thesis by blast
qed

text \<open>
  Claim C9 as stated fails for a negative \<open>n\<close>: with \<^verbatim>\<open>n=-1\<close> and three topics,
  \<^verbatim>\<open>scores.slice(0, -1)\<close> has two entries.
\<close>

theorem negative_n_counterexample:
  "parseInt (Some ''-1'') = Some (- 1) \<and>
   length (getAllTopicIds sample_subjects) = 3 \<and>
   length (recommendations sample_subjects sample_now 0 (Some ''-1'') yesterday_db) = 2 \<and>
   int (length (recommendations sample_subjects sample_now 0 (Some ''-1'') yesterday_db))
     \<noteq> min (- 1) (int (length (getAllTopicIds sample_subjects)))"
proof -
  have "length (map rec_topicId (recommendations sample_subjects sample_now 0 (Some ''-1'') yesterday_db)) = 2"
    by (simp only: yesterday_ranking(3)) simp
  then have l: "length (recommendations sample_subjects sample_now 0 (Some ''-1'') yesterday_db) = 2"
    by simp
  show ?thesis by (simp add: l parseInt_samples sample_topics)
qed

end
